theory Spec2Isabelle
  imports Complex_Main "HOL-Library.Sublist"
begin

section \<open>Strings and Python primitives\<close>

text \<open>
  A Python \<open>str\<close> is a sequence of Unicode code points: slicing and \<open>in\<close> count code
  points, while the UTF-8 encoding of one code point takes one to four bytes. A string is
  therefore a list of code-point numbers, and \<open>str\<close> turns an ASCII literal into one.
  Python floats are IEEE doubles; they are modelled below with their rounding.
\<close>

type_synonym pystr = "nat list"

definition str :: "string \<Rightarrow> pystr" where
  "str s = map of_char s"

datatype py_error = ZeroDivisionError

text \<open>\<open>needle in haystack\<close> on strings: the needle occurs as a contiguous run.\<close>

fun py_in :: "'a list \<Rightarrow> 'a list \<Rightarrow> bool" where
  "py_in ks [] = (ks = [])"
| "py_in ks (c # cs) = (prefix ks (c # cs) \<or> py_in ks cs)"

section \<open>Double-precision floats\<close>

text \<open>
  A Python \<open>float\<close> is an IEEE 754 double: a signed zero or a signed multiple \<open>m * 2^e\<close>
  of a power of two with \<open>m < 2^53\<close>, \<open>- 1074 \<le> e\<close> and magnitude below \<open>2^1024\<close>, an
  infinity, or a NaN. \<open>Finite s m e\<close> is \<open>(-1)^s * m * 2^e\<close>; several pairs \<open>(m, e)\<close> may
  stand for the same number.
\<close>

datatype double = Finite bool nat int | Infinity bool | NaN

definition is_double :: "double \<Rightarrow> bool" where
  "is_double d = (case d of
       Finite s m e \<Rightarrow> m < 2 ^ 53 \<and> - 1074 \<le> e \<and> (0 \<le> e \<longrightarrow> m * 2 ^ nat e < 2 ^ 1024)
     | _ \<Rightarrow> True)"

definition is_finite :: "double \<Rightarrow> bool" where
  "is_finite d = (case d of Finite s m e \<Rightarrow> True | _ \<Rightarrow> False)"

text \<open>The number a finite double stands for (0 for the others).\<close>

definition dval :: "double \<Rightarrow> real" where
  "dval d = (case d of
       Finite s m e \<Rightarrow> (if s then - 1 else 1) *
                        (if 0 \<le> e then real m * 2 ^ nat e else real m / 2 ^ nat (- e))
     | Infinity s \<Rightarrow> 0
     | NaN \<Rightarrow> 0)"

text \<open>\<open>int.bit_length\<close>: the number of binary digits of a natural number.\<close>

function bit_length :: "nat \<Rightarrow> nat" where
  "bit_length n = (if n = 0 then 0 else 1 + bit_length (n div 2))"
  by pat_completeness auto
termination
  by (relation "measure (\<lambda>n. n)") auto

declare bit_length.simps [simp del]

text \<open>\<open>m / 2^k\<close> rounded to the nearest natural number, a tie to the even one.\<close>

definition round_shift :: "nat \<Rightarrow> nat \<Rightarrow> nat" where
  "round_shift m k =
     (if k = 0 then m
      else (let q = m div 2 ^ k; r = m mod 2 ^ k; h = 2 ^ (k - 1)
            in if h < r \<or> (r = h \<and> odd q) then q + 1 else q))"

text \<open>
  Rounding to nearest, ties to even: the mantissa and exponent of the double nearest to
  \<open>m * 2^e\<close>. At most 53 binary digits are kept, and none below \<open>2^-1074\<close>.
\<close>

definition round_mantissa :: "nat \<Rightarrow> int \<Rightarrow> nat \<times> int" where
  "round_mantissa m e =
     (let k = max (bit_length m - 53) (nat (- 1074 - e))
      in (round_shift m k, e + int k))"

text \<open>The result of an operation whose exact value is \<open>(-1)^s * m * 2^e\<close>; it overflows to an infinity.\<close>

definition round_to_double :: "bool \<Rightarrow> nat \<Rightarrow> int \<Rightarrow> double" where
  "round_to_double s m e =
     (case round_mantissa m e of
        (q, e') \<Rightarrow> if 0 \<le> e' \<and> 2 ^ 1024 \<le> q * 2 ^ nat e' then Infinity s else Finite s q e')"

text \<open>
  The mantissa and exponent of the double nearest to the quotient \<open>a / b\<close> of two natural
  numbers, \<open>b\<close> positive: the quotient is first taken with at least 55 binary digits and a
  last digit that records whether anything was cut off, which rounds the same way.
\<close>

definition nearest_quotient :: "nat \<Rightarrow> nat \<Rightarrow> nat \<times> int" where
  "nearest_quotient a b =
     (let s = 55 + bit_length b - bit_length a;
          n = a * 2 ^ s;
          m = 2 * (n div b) + (if n mod b = 0 then 0 else 1)
      in round_mantissa m (- int s - 1))"

text \<open>
  \<open>x - y\<close>: the exact difference rounded to nearest; a difference of zero is \<open>+0.0\<close>
  except for \<open>(-0.0) - (+0.0)\<close>.
\<close>

definition dsub :: "double \<Rightarrow> double \<Rightarrow> double" where
  "dsub x y =
     (case (x, y) of
        (NaN, _) \<Rightarrow> NaN
      | (_, NaN) \<Rightarrow> NaN
      | (Infinity s, Infinity t) \<Rightarrow> (if s = t then NaN else Infinity s)
      | (Infinity s, Finite _ _ _) \<Rightarrow> Infinity s
      | (Finite _ _ _, Infinity t) \<Rightarrow> Infinity (\<not> t)
      | (Finite s m e, Finite t n f) \<Rightarrow>
          (let g = min e f;
               a = (if s then - 1 else 1) * int m * 2 ^ nat (e - g);
               b = (if t then - 1 else 1) * int n * 2 ^ nat (f - g);
               d = a - b
           in if d = 0 then Finite (s \<and> \<not> t \<and> m = 0 \<and> n = 0) 0 0
              else round_to_double (d < 0) (nat \<bar>d\<bar>) g))"

text \<open>\<open>abs(x)\<close>\<close>

definition dabs :: "double \<Rightarrow> double" where
  "dabs x = (case x of Finite s m e \<Rightarrow> Finite False m e | Infinity s \<Rightarrow> Infinity False | NaN \<Rightarrow> NaN)"

text \<open>
  \<open>x <= r\<close> and \<open>x < r\<close> for a float \<open>x\<close> and a finite number \<open>r\<close> (an integer or a finite
  float); Python compares the exact values, and a NaN compares false.
\<close>

definition d_le :: "double \<Rightarrow> real \<Rightarrow> bool" where
  "d_le x r = (case x of Finite s m e \<Rightarrow> dval x \<le> r | Infinity s \<Rightarrow> s | NaN \<Rightarrow> False)"

definition d_less :: "double \<Rightarrow> real \<Rightarrow> bool" where
  "d_less x r = (case x of Finite s m e \<Rightarrow> dval x < r | Infinity s \<Rightarrow> s | NaN \<Rightarrow> False)"

text \<open>
  True division \<open>a / b\<close> of two integers: it raises on a zero divisor and otherwise gives
  the double nearest to the exact quotient, here as the number that double stands for.
  It is applied to the sum of a list over its length; such a quotient is far inside the
  range of the doubles, so the overflow of true division is left out.
\<close>

definition float_quotient :: "int \<Rightarrow> int \<Rightarrow> real" where
  "float_quotient a b =
     (case nearest_quotient (nat \<bar>a\<bar>) (nat \<bar>b\<bar>) of
        (q, e) \<Rightarrow> dval (Finite ((a < 0) \<noteq> (b < 0)) q e))"

definition py_truediv :: "int \<Rightarrow> int \<Rightarrow> py_error + real" where
  "py_truediv a b = (if b = 0 then Inl ZeroDivisionError else Inr (float_quotient a b))"

text \<open>\<open>sum(xs) / len(xs)\<close> of a list that is not empty, and 0 for the empty list.\<close>

definition float_mean :: "int list \<Rightarrow> real" where
  "float_mean xs = (if xs = [] then 0 else float_quotient (sum_list xs) (int (length xs)))"

text \<open>The decimal digits of a natural number.\<close>

function decimal :: "nat \<Rightarrow> pystr" where
  "decimal n = (if n < 10 then [48 + n] else decimal (n div 10) @ [48 + n mod 10])"
  by pat_completeness auto
termination
  by (relation "measure (\<lambda>n. n)") auto

declare decimal.simps [simp del]

text \<open>
  \<open>format(x, ".2f")\<close>: the exact value rounded to two decimals, a tie to the even digit,
  with the sign of \<open>x\<close>.
\<close>

definition format_2f :: "double \<Rightarrow> pystr" where
  "format_2f x =
     (case x of
        NaN \<Rightarrow> str ''nan''
      | Infinity s \<Rightarrow> (if s then str ''-inf'' else str ''inf'')
      | Finite s m e \<Rightarrow>
          (let q = (if 0 \<le> e then 100 * m * 2 ^ nat e else round_shift (100 * m) (nat (- e)))
           in (if s then str ''-'' else []) @ decimal (q div 100) @ str ''.''
              @ [48 + q mod 100 div 10, 48 + q mod 10]))"

section \<open>Feature extraction and behaviour analysis (benchmark\_rust\_vs\_python.py)\<close>

definition STATIC_KEYWORDS :: "pystr list" where
  "STATIC_KEYWORDS = [str ''wp-admin'', str ''sql'', str ''select'', str ''union'']"

text \<open>
  Request records are dictionaries read with \<open>rec.get(key, default)\<close>: a field is
  \<open>None\<close> when the key is absent, and each reader below supplies the source's default.
\<close>

record request_record =
  r_ip :: "pystr option"
  r_path_lower :: "pystr option"
  r_path_len :: "int option"
  r_response_time :: "real option"
  r_status_idx :: "int option"
  r_kw_check :: "bool option"
  r_total_404 :: "int option"

record feature_vector =
  ip :: "pystr option"
  path_len :: int
  kw_hits :: int
  response_time :: real
  status_idx :: int
  burst_count :: int
  total_404 :: int

definition get_or :: "'a option \<Rightarrow> 'a \<Rightarrow> 'a" where
  "get_or v d = (case v of None \<Rightarrow> d | Some x \<Rightarrow> x)"

text \<open>\<open>sum(1 for kw in static_keywords if kw in path_lower)\<close>\<close>

definition count_keywords :: "pystr list \<Rightarrow> pystr \<Rightarrow> int" where
  "count_keywords static_keywords path_lower =
     sum_list (map (\<lambda>kw. 1) (filter (\<lambda>kw. py_in kw path_lower) static_keywords))"

definition extract_one :: "pystr list \<Rightarrow> request_record \<Rightarrow> feature_vector" where
  "extract_one static_keywords rec =
     (let path_lower = get_or (r_path_lower rec) [];
          kw_check = get_or (r_kw_check rec) True;
          hits = (if kw_check then count_keywords static_keywords path_lower else 0)
      in \<lparr> ip = r_ip rec,
           path_len = get_or (r_path_len rec) 0,
           kw_hits = hits,
           response_time = get_or (r_response_time rec) 0,
           status_idx = get_or (r_status_idx rec) (- 1),
           burst_count = 1,
           total_404 = get_or (r_total_404 rec) 0 \<rparr>)"

text \<open>The loop \<open>for rec in records: features.append(...)\<close>, with the list built so far.\<close>

fun extract_loop :: "pystr list \<Rightarrow> request_record list \<Rightarrow> feature_vector list \<Rightarrow> feature_vector list" where
  "extract_loop static_keywords [] features = features"
| "extract_loop static_keywords (rec # records) features =
     extract_loop static_keywords records (features @ [extract_one static_keywords rec])"

definition extract_features_python :: "request_record list \<Rightarrow> pystr list \<Rightarrow> feature_vector list" where
  "extract_features_python records static_keywords = extract_loop static_keywords records []"

record entry =
  e_path_lower :: "pystr option"
  e_timestamp :: "double option"
  e_status :: "int option"
  e_kw_check :: "bool option"

record snapshot =
  avg_kw_hits :: real
  max_404s :: int
  avg_burst :: real
  total_requests :: int
  scanning_404s :: int
  legitimate_404s :: int
  should_block :: bool

text \<open>The local variables the main loop of \<open>analyze_recent_behavior_python\<close> updates.\<close>

record locals =
  recent_kw_hits :: "int list"
  recent_404s :: int
  recent_burst_counts :: "int list"
  n_scanning_404s :: int

definition SCAN_MARKERS :: "pystr list" where
  "SCAN_MARKERS = [str ''wp-admin'', str ''wp-content'', str ''phpmyadmin'', str ''.env'',
                   str ''.git'', str ''xmlrpc'', str ''sql'']"

text \<open>\<open>float(entry.get("timestamp", 0.0))\<close>\<close>

definition timestamp_of :: "entry \<Rightarrow> double" where
  "timestamp_of e = get_or (e_timestamp e) (Finite False 0 0)"

definition entry_kw_hits :: "pystr list \<Rightarrow> entry \<Rightarrow> int" where
  "entry_kw_hits static_keywords e =
     (if get_or (e_kw_check e) True
      then count_keywords static_keywords (get_or (e_path_lower e) []) else 0)"

definition is_404 :: "entry \<Rightarrow> bool" where
  "is_404 e = (get_or (e_status e) 0 = 404)"

definition is_scanning :: "entry \<Rightarrow> bool" where
  "is_scanning e = list_ex (\<lambda>p. py_in p (get_or (e_path_lower e) [])) SCAN_MARKERS"

text \<open>The inner loop \<open>for j, other in enumerate(entries)\<close> for the record at index \<open>i\<close>.\<close>

fun burst_loop :: "nat \<Rightarrow> double \<Rightarrow> (nat \<times> entry) list \<Rightarrow> int \<Rightarrow> int" where
  "burst_loop i timestamp [] entry_burst = entry_burst"
| "burst_loop i timestamp ((j, other) # rest) entry_burst =
     (if i = j then burst_loop i timestamp rest entry_burst
      else if d_le (dabs (dsub timestamp (timestamp_of other))) 10
           then burst_loop i timestamp rest (entry_burst + 1)
           else burst_loop i timestamp rest entry_burst)"

definition loop_body :: "entry list \<Rightarrow> pystr list \<Rightarrow> nat \<Rightarrow> entry \<Rightarrow> locals \<Rightarrow> locals" where
  "loop_body entries static_keywords i e l =
     (let l1 = l\<lparr> recent_kw_hits := recent_kw_hits l @ [entry_kw_hits static_keywords e] \<rparr>;
          l2 = (if is_404 e
                then (let l' = l1\<lparr> recent_404s := recent_404s l1 + 1 \<rparr>
                      in if is_scanning e
                         then l'\<lparr> n_scanning_404s := n_scanning_404s l' + 1 \<rparr> else l')
                else l1);
          entry_burst = burst_loop i (timestamp_of e) (enumerate 0 entries) 0
      in l2\<lparr> recent_burst_counts := recent_burst_counts l2 @ [entry_burst] \<rparr>)"

fun main_loop :: "entry list \<Rightarrow> pystr list \<Rightarrow> (nat \<times> entry) list \<Rightarrow> locals \<Rightarrow> locals" where
  "main_loop entries static_keywords [] l = l"
| "main_loop entries static_keywords ((i, e) # rest) l =
     main_loop entries static_keywords rest (loop_body entries static_keywords i e l)"

definition init_locals :: locals where
  "init_locals = \<lparr> recent_kw_hits = [], recent_404s = 0, recent_burst_counts = [], n_scanning_404s = 0 \<rparr>"

definition run_main_loop :: "entry list \<Rightarrow> pystr list \<Rightarrow> locals" where
  "run_main_loop entries static_keywords =
     main_loop entries static_keywords (enumerate 0 entries) init_locals"

text \<open>\<open>sum(xs) / len(xs) if xs else 0.0\<close>\<close>

definition guarded_mean :: "int list \<Rightarrow> py_error + real" where
  "guarded_mean xs = (if xs \<noteq> [] then py_truediv (sum_list xs) (int (length xs)) else Inr 0)"

definition verdict :: "real \<Rightarrow> int \<Rightarrow> int \<Rightarrow> real \<Rightarrow> int \<Rightarrow> int \<Rightarrow> bool" where
  "verdict avg_kw max404 scanning avg_b n_total legit =
     (let blk = \<not> (avg_kw < 3 \<and> scanning < 5 \<and> legit < 20 \<and> avg_b < 25 \<and> n_total < 150)
      in if avg_kw = 0 \<and> max404 = 0 then False else blk)"

definition analyze_recent_behavior_python :: "entry list \<Rightarrow> pystr list \<Rightarrow> py_error + snapshot" where
  "analyze_recent_behavior_python entries static_keywords =
     (let l = run_main_loop entries static_keywords
      in case guarded_mean (recent_kw_hits l) of
           Inl err \<Rightarrow> Inl err
         | Inr avg_kw \<Rightarrow>
            (case guarded_mean (recent_burst_counts l) of
               Inl err \<Rightarrow> Inl err
             | Inr avg_b \<Rightarrow>
                (let max404 = recent_404s l;
                     n_total = int (length entries);
                     legit = max404 - n_scanning_404s l
                 in Inr \<lparr> avg_kw_hits = avg_kw,
                          max_404s = max404,
                          avg_burst = avg_b,
                          total_requests = n_total,
                          scanning_404s = n_scanning_404s l,
                          legitimate_404s = legit,
                          should_block = verdict avg_kw max404 (n_scanning_404s l) avg_b n_total legit \<rparr>)))"

text \<open>
  The number of other entries for which the difference of the timestamps, subtracted in
  double precision, is at most ten in absolute value, as the cardinality of an index set;
  the burst counts are stated against it.
\<close>

definition burst_of :: "entry list \<Rightarrow> nat \<Rightarrow> int" where
  "burst_of E i = int (card {j. j < length E \<and> j \<noteq> i \<and>
                                 d_le (dabs (dsub (timestamp_of (E ! i)) (timestamp_of (E ! j)))) 10})"

text \<open>
  Sample timestamps: the doubles \<open>0.0\<close>, \<open>10.0\<close>, \<open>10.5\<close>, \<open>-2^-60\<close> and \<open>1000.0\<close>.
\<close>

definition ts_0 :: double where
  "ts_0 = Finite False 0 0"

definition ts_10 :: double where
  "ts_10 = Finite False 10 0"

definition ts_10_5 :: double where
  "ts_10_5 = Finite False 21 (- 1)"

definition ts_minus_tiny :: double where
  "ts_minus_tiny = Finite True 1 (- 60)"

definition t_1000 :: double where
  "t_1000 = Finite False 1000 0"

text \<open>Sample entries and records on which the analysis and the extraction are run.\<close>

definition quiet_entry :: entry where
  "quiet_entry = \<lparr> e_path_lower = Some (str ''/home''), e_timestamp = Some t_1000, e_status = Some 200, e_kw_check = Some True \<rparr>"

definition probe_entry :: entry where
  "probe_entry = \<lparr> e_path_lower = Some (str ''/wp-admin/sql-select''), e_timestamp = Some t_1000, e_status = Some 200, e_kw_check = Some True \<rparr>"

definition sample_record_1 :: request_record where
  "sample_record_1 = \<lparr> r_ip = Some (str ''1.2.3.4''), r_path_lower = Some (str ''/wp-admin''),
     r_path_len = Some 9, r_response_time = Some (1 / 10), r_status_idx = Some 0,
     r_kw_check = Some True, r_total_404 = Some 2 \<rparr>"

definition sample_record_2 :: request_record where
  "sample_record_2 = \<lparr> r_ip = Some (str ''1.2.3.4''), r_path_lower = Some (str ''/home''),
     r_path_len = Some 5, r_response_time = Some (2 / 10), r_status_idx = Some 1,
     r_kw_check = Some False, r_total_404 = Some 2 \<rparr>"

definition burst_sample :: "entry list" where
  "burst_sample =
     [\<lparr> e_path_lower = Some (str ''/a''), e_timestamp = Some ts_0, e_status = Some 200, e_kw_check = Some False \<rparr>,
      \<lparr> e_path_lower = Some (str ''/b''), e_timestamp = Some ts_10, e_status = Some 200, e_kw_check = Some False \<rparr>,
      \<lparr> e_path_lower = Some (str ''/c''), e_timestamp = Some ts_10_5, e_status = Some 200, e_kw_check = Some False \<rparr>]"

text \<open>Two entries with the timestamps \<open>10.0\<close> and \<open>-2^-60\<close>, more than ten seconds apart.\<close>

definition rounding_sample :: "entry list" where
  "rounding_sample =
     [\<lparr> e_path_lower = Some (str ''/a''), e_timestamp = Some ts_10, e_status = Some 200, e_kw_check = Some False \<rparr>,
      \<lparr> e_path_lower = Some (str ''/b''), e_timestamp = Some ts_minus_tiny, e_status = Some 200, e_kw_check = Some False \<rparr>]"

section \<open>Extended request info of a blacklist entry (blacklist\_manager.py)\<close>

definition DEFAULT_CAPTURE_HEADERS :: "pystr list" where
  "DEFAULT_CAPTURE_HEADERS = [str ''User-Agent'', str ''Accept'', str ''Accept-Language'',
                              str ''X-Forwarded-For'', str ''X-Real-IP'', str ''Referer'']"

definition DEFAULT_REDACT_HEADERS :: "pystr list" where
  "DEFAULT_REDACT_HEADERS = [str ''Authorization'', str ''Cookie'', str ''Set-Cookie'', str ''X-Api-Key'']"

definition REDACTED :: pystr where
  "REDACTED = str ''[REDACTED]''"

text \<open>
  The request accessor of the web framework: the decoded text of url, path, query string,
  method and host, and the header mapping as its lookup \<open>request.headers.get(key)\<close>.
  The framework decodes these from the wire, so they hold no lone surrogate and encoding
  them as UTF-8 never raises.
\<close>

record request =
  req_url :: pystr
  req_path :: pystr
  req_query :: pystr
  req_method :: pystr
  req_host :: pystr
  req_headers :: "pystr \<Rightarrow> pystr option"

text \<open>
  The header mapping the framework hands out (werkzeug's \<open>EnvironHeaders\<close>, outside the
  repository) reads the WSGI environment: \<open>get(key)\<close> upper-cases the key, replaces
  \<open>-\<close> by \<open>_\<close> and returns the entry stored under \<open>HTTP_\<close> followed by that name
  (\<open>CONTENT_TYPE\<close> and \<open>CONTENT_LENGTH\<close> are stored without the prefix). \<open>str.upper\<close> is a
  parameter, as \<open>str.lower\<close> is below; \<open>ascii_upper\<close> is the instance used on concrete
  inputs.
\<close>

definition ascii_upper :: "pystr \<Rightarrow> pystr" where
  "ascii_upper s = map (\<lambda>c. if 97 \<le> c \<and> c \<le> 122 then c - 32 else c) s"

definition environ_key :: "(pystr \<Rightarrow> pystr) \<Rightarrow> pystr \<Rightarrow> pystr" where
  "environ_key upper key =
     (let k = map (\<lambda>c. if c = 45 then 95 else c) (upper key)
      in if k = str ''CONTENT_TYPE'' \<or> k = str ''CONTENT_LENGTH'' then k else str ''HTTP_'' @ k)"

definition environ_headers :: "(pystr \<Rightarrow> pystr) \<Rightarrow> (pystr \<rightharpoonup> pystr) \<Rightarrow> pystr \<Rightarrow> pystr option" where
  "environ_headers upper environ key = environ (environ_key upper key)"

text \<open>The four configuration keys \<open>_build_request_info\<close> reads; \<open>None\<close> is an absent key.\<close>

record config =
  cfg_capture :: "bool option"
  cfg_max_bytes :: "int option"
  cfg_capture_headers :: "pystr list option"
  cfg_redact_headers :: "pystr list option"

record payload =
  p_url :: pystr
  p_path :: pystr
  p_query :: pystr
  p_method :: pystr
  p_host :: pystr
  p_headers :: "(pystr \<times> pystr) list"

text \<open>
  The two shapes of dictionary the builder returns: the payload with its six keys, and the
  fallback \<open>{path, method, host, truncated: True}\<close>.
\<close>

datatype info = Payload payload | Minimal pystr pystr pystr

text \<open>\<open>str.isspace\<close>: the code points \<open>str.strip()\<close> removes from both ends.\<close>

definition is_space :: "nat \<Rightarrow> bool" where
  "is_space c = ((9 \<le> c \<and> c \<le> 13) \<or> (28 \<le> c \<and> c \<le> 32) \<or> c = 133 \<or> c = 160 \<or> c = 5760
                 \<or> (8192 \<le> c \<and> c \<le> 8202) \<or> c = 8232 \<or> c = 8233 \<or> c = 8239 \<or> c = 8287
                 \<or> c = 12288)"

definition py_strip :: "pystr \<Rightarrow> pystr" where
  "py_strip s = rev (dropWhile is_space (rev (dropWhile is_space s)))"

text \<open>
  \<open>str.lower\<close> is a parameter \<open>lower\<close> of the definitions that fold case, so that what is
  proved holds for Python's full Unicode case mapping; \<open>ascii_lower\<close> is the instance used
  on concrete inputs.
\<close>

definition ascii_lower :: "pystr \<Rightarrow> pystr" where
  "ascii_lower s = map (\<lambda>c. if 65 \<le> c \<and> c \<le> 90 then c + 32 else c) s"

text \<open>\<open>{str(h).strip().lower() for h in redact_headers if h}\<close>\<close>

definition redact_set :: "(pystr \<Rightarrow> pystr) \<Rightarrow> pystr list \<Rightarrow> pystr set" where
  "redact_set lower redact_headers =
     set (map (\<lambda>h. lower (py_strip h)) (filter (\<lambda>h. h \<noteq> []) redact_headers))"

text \<open>\<open>d[key] = value\<close> on an insertion-ordered dictionary.\<close>

fun dict_set :: "('k \<times> 'v) list \<Rightarrow> 'k \<Rightarrow> 'v \<Rightarrow> ('k \<times> 'v) list" where
  "dict_set [] key v = [(key, v)]"
| "dict_set ((k, w) # d) key v = (if k = key then (k, v) # d else (k, w) # dict_set d key v)"

text \<open>The loop \<open>for header_name in capture_headers\<close> filling \<open>selected_headers\<close>.\<close>

fun select_loop :: "(pystr \<Rightarrow> pystr) \<Rightarrow> pystr set \<Rightarrow> (pystr \<Rightarrow> pystr option) \<Rightarrow> pystr list
                    \<Rightarrow> (pystr \<times> pystr) list \<Rightarrow> (pystr \<times> pystr) list" where
  "select_loop lower rset headers [] selected_headers = selected_headers"
| "select_loop lower rset headers (header_name # rest) selected_headers =
     (if header_name = [] then select_loop lower rset headers rest selected_headers
      else (let key = py_strip header_name
            in case headers key of
                 None \<Rightarrow> select_loop lower rset headers rest selected_headers
               | Some v \<Rightarrow>
                   if lower key \<in> rset
                   then select_loop lower rset headers rest (dict_set selected_headers key REDACTED)
                   else select_loop lower rset headers rest (dict_set selected_headers key v)))"

subsection \<open>Compact JSON and its UTF-8 size\<close>

text \<open>
  \<open>json.dumps(payload, separators=(",", ":"), ensure_ascii=False)\<close> on the dictionaries
  above: strings are quoted, with the quote, the backslash and the control characters
  below U+0020 escaped and every other code point written as it is.
\<close>

definition hex_digit :: "nat \<Rightarrow> nat" where
  "hex_digit n = (if n < 10 then 48 + n else 87 + n)"

definition json_escape_char :: "nat \<Rightarrow> pystr" where
  "json_escape_char c =
     (if c = 34 then [92, 34]
      else if c = 92 then [92, 92]
      else if c = 8 then [92, 98]
      else if c = 12 then [92, 102]
      else if c = 10 then [92, 110]
      else if c = 13 then [92, 114]
      else if c = 9 then [92, 116]
      else if c < 32 then [92, 117, 48, 48, hex_digit (c div 16), hex_digit (c mod 16)]
      else [c])"

definition json_string :: "pystr \<Rightarrow> pystr" where
  "json_string s = [34] @ concat (map json_escape_char s) @ [34]"

fun join :: "pystr \<Rightarrow> pystr list \<Rightarrow> pystr" where
  "join sep [] = []"
| "join sep [x] = x"
| "join sep (x # y # ys) = x @ sep @ join sep (y # ys)"

datatype json_value = JString pystr | JTrue | JDict "(pystr \<times> pystr) list"

definition json_value_text :: "json_value \<Rightarrow> pystr" where
  "json_value_text v =
     (case v of
        JString s \<Rightarrow> json_string s
      | JTrue \<Rightarrow> str ''true''
      | JDict d \<Rightarrow> [123] @ join [44] (map (\<lambda>(k, w). json_string k @ [58] @ json_string w) d) @ [125])"

definition json_object_text :: "(pystr \<times> json_value) list \<Rightarrow> pystr" where
  "json_object_text d =
     [123] @ join [44] (map (\<lambda>(k, v). json_string k @ [58] @ json_value_text v) d) @ [125]"

definition info_items :: "info \<Rightarrow> (pystr \<times> json_value) list" where
  "info_items i =
     (case i of
        Payload p \<Rightarrow> [(str ''url'', JString (p_url p)), (str ''path'', JString (p_path p)),
                       (str ''query'', JString (p_query p)), (str ''method'', JString (p_method p)),
                       (str ''host'', JString (p_host p)), (str ''headers'', JDict (p_headers p))]
      | Minimal path method host \<Rightarrow>
                      [(str ''path'', JString path), (str ''method'', JString method),
                       (str ''host'', JString host), (str ''truncated'', JTrue)])"

definition dumps_compact :: "info \<Rightarrow> pystr" where
  "dumps_compact i = json_object_text (info_items i)"

text \<open>\<open>len(s.encode("utf-8"))\<close>\<close>

definition utf8_char_len :: "nat \<Rightarrow> nat" where
  "utf8_char_len c = (if c < 128 then 1 else if c < 2048 then 2 else if c < 65536 then 3 else 4)"

definition utf8_len :: "pystr \<Rightarrow> nat" where
  "utf8_len s = sum_list (map utf8_char_len s)"

definition serialized_size :: "info \<Rightarrow> nat" where
  "serialized_size i = utf8_len (dumps_compact i)"

definition fits :: "int \<Rightarrow> info \<Rightarrow> bool" where
  "fits max_bytes i = (int (serialized_size i) \<le> max_bytes)"

subsection \<open>The builder\<close>

definition selected_headers_of :: "(pystr \<Rightarrow> pystr) \<Rightarrow> config \<Rightarrow> request \<Rightarrow> (pystr \<times> pystr) list" where
  "selected_headers_of lower cfg req =
     select_loop lower
       (redact_set lower (get_or (cfg_redact_headers cfg) DEFAULT_REDACT_HEADERS))
       (req_headers req)
       (get_or (cfg_capture_headers cfg) DEFAULT_CAPTURE_HEADERS) []"

definition full_payload :: "(pystr \<Rightarrow> pystr) \<Rightarrow> config \<Rightarrow> request \<Rightarrow> payload" where
  "full_payload lower cfg req =
     \<lparr> p_url = req_url req, p_path = req_path req, p_query = req_query req,
       p_method = req_method req, p_host = req_host req,
       p_headers = selected_headers_of lower cfg req \<rparr>"

text \<open>The size checks after the payload is built, in the order of the source.\<close>

definition degrade :: "int \<Rightarrow> request \<Rightarrow> payload \<Rightarrow> info" where
  "degrade max_bytes req pl =
     (if fits max_bytes (Payload pl) then Payload pl
      else (let pl1 = pl\<lparr> p_headers := [] \<rparr>
            in if fits max_bytes (Payload pl1) then Payload pl1
               else (let query_val = p_query pl1;
                         pl2 = (if query_val \<noteq> [] then pl1\<lparr> p_query := take 256 query_val \<rparr> else pl1)
                     in if query_val \<noteq> [] \<and> fits max_bytes (Payload pl2) then Payload pl2
                        else (let url_val = p_url pl2;
                                  pl3 = (if url_val \<noteq> [] then pl2\<lparr> p_url := take 256 url_val \<rparr> else pl2)
                              in if url_val \<noteq> [] \<and> fits max_bytes (Payload pl3) then Payload pl3
                                 else Minimal (req_path req) (req_method req) (req_host req)))))"

text \<open>
  \<open>_build_request_info\<close>; the first argument is the current request, \<open>None\<close> outside a
  request context.
\<close>

definition build_request_info :: "(pystr \<Rightarrow> pystr) \<Rightarrow> config \<Rightarrow> request option \<Rightarrow> info option" where
  "build_request_info lower cfg ctx =
     (case ctx of
        None \<Rightarrow> None
      | Some req \<Rightarrow>
          if \<not> get_or (cfg_capture cfg) False then None
          else Some (degrade (get_or (cfg_max_bytes cfg) 4096) req (full_payload lower cfg req)))"

text \<open>
  The degradation as the specification words it: five stages, each obtained from the one
  before, and the first of the four measured stages that fits is used.
\<close>

definition spec_stages :: "payload \<Rightarrow> payload list" where
  "spec_stages pl =
     (let s1 = pl;
          s2 = s1\<lparr> p_headers := [] \<rparr>;
          s3 = s2\<lparr> p_query := take 256 (p_query s2) \<rparr>;
          s4 = s3\<lparr> p_url := take 256 (p_url s3) \<rparr>
      in [s1, s2, s3, s4])"

definition degrade_spec :: "int \<Rightarrow> request \<Rightarrow> payload \<Rightarrow> info" where
  "degrade_spec max_bytes req pl =
     (case find (\<lambda>s. fits max_bytes (Payload s)) (spec_stages pl) of
        Some s \<Rightarrow> Payload s
      | None \<Rightarrow> Minimal (req_path req) (req_method req) (req_host req))"

text \<open>Sample requests and configurations used to run the builder on concrete inputs.\<close>

definition test_config :: "int \<Rightarrow> config" where
  "test_config n = \<lparr> cfg_capture = Some True, cfg_max_bytes = Some n,
                     cfg_capture_headers = Some [str ''User-Agent'', str ''Authorization''],
                     cfg_redact_headers = Some [str ''Authorization''] \<rparr>"

definition login_request :: "pystr \<Rightarrow> request" where
  "login_request secret =
     \<lparr> req_url = str ''https://example.com/login?x=1'', req_path = str ''/login'',
       req_query = str ''x=1'', req_method = str ''POST'', req_host = str ''example.com'',
       req_headers = environ_headers ascii_upper
                       (map_of [(str ''HTTP_USER_AGENT'', str ''pytest-agent''),
                                (str ''HTTP_AUTHORIZATION'', secret)]) \<rparr>"

definition long_path_request :: request where
  "long_path_request =
     \<lparr> req_url = str ''https://example.com/very/long/path/for/testing/size/limit?payload=xxxxxxxx'',
       req_path = str ''/very/long/path/for/testing/size/limit'',
       req_query = str ''payload=xxxxxxxx'', req_method = str ''POST'',
       req_host = str ''example.com'',
       req_headers = environ_headers ascii_upper
                       (map_of [(str ''HTTP_USER_AGENT'', str ''agent-yyyyyyyy''),
                                (str ''HTTP_AUTHORIZATION'', str ''Bearer secret'')]) \<rparr>"

text \<open>
  A configuration that captures one header under two spellings and redacts it under one,
  and a request carrying that header.
\<close>

definition alias_config :: config where
  "alias_config = \<lparr> cfg_capture = Some True, cfg_max_bytes = None,
                     cfg_capture_headers = Some [str ''X-Api-Key'', str ''X_Api_Key''],
                     cfg_redact_headers = Some [str ''X-Api-Key''] \<rparr>"

definition api_request :: "pystr \<Rightarrow> request" where
  "api_request api_key =
     \<lparr> req_url = str ''https://example.com/api'', req_path = str ''/api'',
       req_query = [], req_method = str ''GET'', req_host = str ''example.com'',
       req_headers = environ_headers ascii_upper (map_of [(str ''HTTP_X_API_KEY'', api_key)]) \<rparr>"

section \<open>Honeypot timing (honeypot\_timing\_middleware.py)\<close>

text \<open>
  Modelled from the spec: the persistent store behind
  \<open>add_ip_blacklist(ip, reason, extended_request_info)\<close> (module \<open>storage\<close>, not among the
  sources), an external collaborator that keeps one entry per address and overwrites it
  when the address is blocked again. The time the store stamps on an entry is its own
  and is left out.
\<close>

type_synonym blacklist_store = "pystr \<rightharpoonup> pystr \<times> info option"

definition add_ip_blacklist :: "pystr \<Rightarrow> pystr \<Rightarrow> info option \<Rightarrow> blacklist_store \<Rightarrow> blacklist_store" where
  "add_ip_blacklist ip_addr reason extended_request_info store =
     store(ip_addr \<mapsto> (reason, extended_request_info))"

text \<open>
  \<open>BlacklistManager.block\<close> (blacklist\_manager.py): without extended request info of its
  own it attaches what \<open>_build_request_info\<close> returns for the current request.
\<close>

definition block :: "(pystr \<Rightarrow> pystr) \<Rightarrow> config \<Rightarrow> request option \<Rightarrow> pystr \<Rightarrow> pystr
                     \<Rightarrow> info option \<Rightarrow> blacklist_store \<Rightarrow> blacklist_store" where
  "block lower cfg ctx ip_addr reason extended_request_info store =
     (let extended = (case extended_request_info of
                        None \<Rightarrow> build_request_info lower cfg ctx
                      | Some i \<Rightarrow> Some i)
      in add_ip_blacklist ip_addr reason extended store)"

text \<open>
  What \<open>before_request\<close> reads from its surroundings for one request: the answer of
  \<open>should_apply_middleware('honeypot')\<close>, the configuration keys
  \<open>AIWAF_HONEYPOT_SKIP_AUTHENTICATED\<close> and \<open>AIWAF_MIN_FORM_TIME\<close> (\<open>None\<close> when absent; the
  minimum form time is a finite number), the result of \<open>_is_authenticated_request()\<close>,
  the client address \<open>get_ip()\<close>, the clock \<open>time.time()\<close>, the current request and the
  configuration the extended-info builder reads.
\<close>

record hp_env =
  hp_applies :: bool
  hp_skip_authenticated :: "bool option"
  hp_authenticated :: bool
  hp_min_form_time :: "real option"
  hp_ip :: pystr
  hp_now :: double
  hp_request :: request
  hp_config :: config

text \<open>The response \<open>(jsonify({"error": "blocked"}), 403)\<close>; \<open>None\<close> lets the request proceed.\<close>

datatype hp_response = Blocked_403

text \<open>The state the handler touches: the module's \<open>_aiwaf_cache\<close> dictionary and the blacklist store.\<close>

record hp_state =
  aiwaf_cache :: "pystr \<rightharpoonup> double"
  blacklist :: blacklist_store

text \<open>The cache key \<open>f"honeypot_get:{ip}"\<close>.\<close>

definition honeypot_key :: "pystr \<Rightarrow> pystr" where
  "honeypot_key ip_addr = str ''honeypot_get:'' @ ip_addr"

text \<open>The block reason \<open>f"Form submitted too quickly ({time_diff:.2f}s)"\<close>.\<close>

definition reason_text :: "double \<Rightarrow> pystr" where
  "reason_text time_diff = str ''Form submitted too quickly ('' @ format_2f time_diff @ str ''s)''"

definition before_request :: "(pystr \<Rightarrow> pystr) \<Rightarrow> hp_env \<Rightarrow> hp_state \<Rightarrow> hp_response option \<times> hp_state" where
  "before_request lower env st =
     (if \<not> hp_applies env then (None, st)
      else if get_or (hp_skip_authenticated env) True \<and> hp_authenticated env then (None, st)
      else (let ip_addr = hp_ip env; now = hp_now env
            in if req_method (hp_request env) = str ''POST''
               then (case aiwaf_cache st (honeypot_key ip_addr) of
                       None \<Rightarrow> (None, st)
                     | Some get_time \<Rightarrow>
                         (let time_diff = dsub now get_time;
                              min_time = get_or (hp_min_form_time env) 1
                          in if d_less time_diff min_time
                             then (Some Blocked_403,
                                   st\<lparr> blacklist := block lower (hp_config env) (Some (hp_request env))
                                                        ip_addr (reason_text time_diff) None (blacklist st) \<rparr>)
                             else (None, st)))
               else if req_method (hp_request env) = str ''GET''
                    then (None, st\<lparr> aiwaf_cache := (aiwaf_cache st)(honeypot_key ip_addr \<mapsto> now) \<rparr>)
                    else (None, st)))"

text \<open>
  A client, an empty state, and requests to a form at the times \<open>1000.0\<close>, \<open>1000.3\<close> and
  \<open>1002.0\<close> with a minimum form time of \<open>0.5\<close>; extended-info capture is off.
\<close>

definition client_ip :: pystr where
  "client_ip = str ''127.0.0.1''"

definition empty_state :: hp_state where
  "empty_state = \<lparr> aiwaf_cache = Map.empty, blacklist = Map.empty \<rparr>"

definition t_1000_3 :: double where
  "t_1000_3 = Finite False 8798731850114662 (- 43)"

definition t_1002 :: double where
  "t_1002 = Finite False 1002 0"

definition plain_config :: config where
  "plain_config = \<lparr> cfg_capture = None, cfg_max_bytes = None,
                     cfg_capture_headers = None, cfg_redact_headers = None \<rparr>"

definition form_request :: "pystr \<Rightarrow> request" where
  "form_request m =
     \<lparr> req_url = str ''http://localhost/test_post'', req_path = str ''/test_post'',
       req_query = [], req_method = m, req_host = str ''localhost'',
       req_headers = environ_headers ascii_upper Map.empty \<rparr>"

definition test_env :: "pystr \<Rightarrow> double \<Rightarrow> bool \<Rightarrow> hp_env" where
  "test_env m t authenticated =
     \<lparr> hp_applies = True, hp_skip_authenticated = None, hp_authenticated = authenticated,
       hp_min_form_time = Some (1 / 2), hp_ip = client_ip, hp_now = t,
       hp_request = form_request m, hp_config = plain_config \<rparr>"

definition stored_state :: hp_state where
  "stored_state = \<lparr> aiwaf_cache = [honeypot_key client_ip \<mapsto> t_1000], blacklist = Map.empty \<rparr>"

section \<open>Per-route exemption policy\<close>

text \<open>
  Modelled from the spec: the exemption resolver \<open>should_apply_middleware\<close> and the
  decorators that layer rules on a route (module \<open>exemption_decorators\<close>, of which only
  the tests are among the sources). A route carries the rules layered on it, in layering
  order; each rule names detectors.
\<close>

datatype rule = EXEMPT_ALL | EXEMPT_FROM "pystr list" | ONLY "pystr list" | REQUIRE "pystr list"

type_synonym policy = "rule list"

definition is_required :: "pystr \<Rightarrow> policy \<Rightarrow> bool" where
  "is_required detector rules =
     list_ex (\<lambda>r. case r of REQUIRE names \<Rightarrow> detector \<in> set names | _ \<Rightarrow> False) rules"

definition is_exempted :: "pystr \<Rightarrow> policy \<Rightarrow> bool" where
  "is_exempted detector rules =
     list_ex (\<lambda>r. case r of EXEMPT_ALL \<Rightarrow> True
                          | EXEMPT_FROM names \<Rightarrow> detector \<in> set names
                          | _ \<Rightarrow> False) rules"

definition is_listed :: "pystr \<Rightarrow> policy \<Rightarrow> bool" where
  "is_listed detector rules =
     list_all (\<lambda>r. case r of ONLY names \<Rightarrow> detector \<in> set names | _ \<Rightarrow> True) rules"

text \<open>
  Modelled from the spec: \<open>should_apply(detector, route)\<close> combines all rules active for
  the route. A required detector always runs, whatever else is layered; otherwise it is
  skipped when an exemption names it (or exempts everything), and otherwise it runs when
  every \<open>ONLY\<close> rule lists it.
\<close>

definition should_apply :: "pystr \<Rightarrow> policy \<Rightarrow> bool" where
  "should_apply detector rules =
     (if is_required detector rules then True
      else if is_exempted detector rules then False
      else is_listed detector rules)"

section \<open>Properties and evaluations of the double operations\<close>

lemma str_simps: "str [] = []" "str (c # cs) = of_char c # str cs"
  by (simp_all add: str_def)

lemma bit_length_bound: "m < 2 ^ k \<Longrightarrow> bit_length m \<le> k"
proof (induction k arbitrary: m)
  case 0
  then show ?case by (simp add: bit_length.simps)
next
  case (Suc k)
  show ?case
  proof (cases "m = 0")
    case True
    then show ?thesis by (simp add: bit_length.simps)
  next
    case False
    from Suc.prems have "m div 2 < 2 ^ k" by simp
    from Suc.IH [OF this] False show ?thesis
      by (subst bit_length.simps) simp
  qed
qed

lemma round_shift_zero: "round_shift 0 k = 0"
  by (simp add: round_shift_def)

lemma round_mantissa_zero: "fst (round_mantissa 0 e) = 0"
  by (simp add: round_mantissa_def Let_def round_shift_zero)

lemma nearest_quotient_zero: "fst (nearest_quotient 0 b) = 0"
  unfolding nearest_quotient_def Let_def by (simp add: round_mantissa_zero)

lemma dval_zero: "dval (Finite s 0 e) = 0"
  by (simp add: dval_def)

lemma float_quotient_zero: "float_quotient 0 b = 0"
proof -
  obtain q e where qe: "nearest_quotient 0 (nat \<bar>b\<bar>) = (q, e)"
    by (cases "nearest_quotient 0 (nat \<bar>b\<bar>)")
  with nearest_quotient_zero [of "nat \<bar>b\<bar>"] have "q = 0" by simp
  with qe show ?thesis by (simp add: float_quotient_def dval_zero)
qed

lemma float_mean_zero: "sum_list xs = 0 \<Longrightarrow> float_mean xs = 0"
  by (simp add: float_mean_def float_quotient_zero)

lemma bit_length_lower: "j < bit_length m \<Longrightarrow> 2 ^ j \<le> m"
proof (induction j arbitrary: m)
  case 0
  then show ?case by (cases "m = 0") (simp_all add: bit_length.simps)
next
  case (Suc j)
  from Suc.prems have m: "m \<noteq> 0"
    by (subst (asm) bit_length.simps) (simp split: if_splits)
  with Suc.prems have "j < bit_length (m div 2)"
    by (subst (asm) bit_length.simps) simp
  from Suc.IH [OF this] have "2 ^ j \<le> m div 2" .
  then show ?case by simp
qed

lemma round_shift_le:
  assumes "m \<le> T * 2 ^ k"
  shows "round_shift m k \<le> T"
proof (cases "k = 0")
  case True
  with assms show ?thesis by (simp add: round_shift_def)
next
  case False
  have q: "m div 2 ^ k \<le> T"
    using assms by (metis div_le_mono nonzero_mult_div_cancel_right power_not_zero zero_neq_numeral)
  show ?thesis
  proof (cases "m div 2 ^ k = T")
    case True
    have "m div 2 ^ k * 2 ^ k \<le> m"
      by (rule div_times_less_eq_dividend)
    with True have "T * 2 ^ k \<le> m" by simp
    with assms have "m = T * 2 ^ k" by simp
    then have "m mod 2 ^ k = 0" by simp
    with False True show ?thesis by (simp add: round_shift_def Let_def)
  next
    case ne: False
    with q have "m div 2 ^ k < T" by simp
    with False show ?thesis by (simp add: round_shift_def Let_def)
  qed
qed

lemma pow2_int: "0 \<le> e \<Longrightarrow> (2::real) ^ nat e = 2 powr real_of_int e"
  by (simp add: powr_realpow [symmetric])

lemma dval_powr:
  "dval (Finite s m e) = (if s then - 1 else 1) * real m * 2 powr real_of_int e"
proof (cases "0 \<le> e")
  case True
  then show ?thesis by (simp add: dval_def pow2_int)
next
  case False
  then have "(2::real) ^ nat (- e) = 2 powr real_of_int (- e)"
    by (simp add: powr_realpow [symmetric])
  with False show ?thesis
    by (simp add: dval_def powr_minus field_simps)
qed

lemma scaled_powr:
  assumes "g \<le> e"
  shows "real_of_int (i * 2 ^ nat (e - g)) * 2 powr real_of_int g = real_of_int i * 2 powr real_of_int e"
proof -
  from assms have "(2::real) ^ nat (e - g) = 2 powr real_of_int (e - g)"
    by (simp add: powr_realpow [symmetric])
  then have "real_of_int (i * 2 ^ nat (e - g)) * 2 powr real_of_int g
             = real_of_int i * (2 powr real_of_int (e - g) * 2 powr real_of_int g)"
    by simp
  also have "2 powr real_of_int (e - g) * 2 powr real_of_int g = (2::real) powr real_of_int e"
    by (simp add: powr_add [symmetric])
  finally show ?thesis .
qed


lemma round_to_double_within:
  assumes g: "- 1074 \<le> g" and bound: "real M * 2 powr real_of_int g \<le> 10"
  shows "d_le (dabs (round_to_double s M g)) 10"
proof -
  define k where "k = bit_length M - 53"
  from g have "nat (- 1074 - g) = 0" by simp
  then have rm: "round_mantissa M g = (round_shift M k, g + int k)"
    by (simp add: round_mantissa_def Let_def k_def)
  show ?thesis
  proof (cases "k = 0")
    case True
    have no: "\<not> (0 \<le> g \<and> (2::nat) ^ 1024 \<le> M * 2 ^ nat g)"
    proof
      assume a: "0 \<le> g \<and> (2::nat) ^ 1024 \<le> M * 2 ^ nat g"
      then have "real M * 2 powr real_of_int g = real (M * 2 ^ nat g)"
        by (simp add: pow2_int)
      with bound have "real (M * 2 ^ nat g) \<le> 10" by simp
      then have "M * 2 ^ nat g \<le> 10" by linarith
      with a show False by simp
    qed
    from True rm have "round_mantissa M g = (M, g)"
      by (simp add: round_shift_def)
    with no have "round_to_double s M g = Finite s M g"
      by (simp add: round_to_double_def)
    with bound show ?thesis
      by (simp add: d_le_def dabs_def dval_powr)
  next
    case False
    then have "k + 52 < bit_length M" by (simp add: k_def)
    then have low: "2 ^ (k + 52) \<le> M" by (rule bit_length_lower)
    have p: "(0::real) < 2 powr real_of_int g" by simp
    from low have "real (2 ^ (k + 52)) \<le> real M" by (simp only: of_nat_le_iff)
    then have "real (2 ^ (k + 52)) * 2 powr real_of_int g \<le> real M * 2 powr real_of_int g"
      using p by (simp only: mult_le_cancel_right_pos)
    with bound have "real (2 ^ (k + 52)) * 2 powr real_of_int g \<le> 10" by linarith
    moreover have "real (2 ^ (k + 52)) = 2 powr real (k + 52)"
    proof -
      have "real (2 ^ (k + 52)) = (2::real) ^ (k + 52)" by simp
      also have "\<dots> = 2 powr real (k + 52)" by (rule powr_realpow [symmetric]) simp
      finally show ?thesis .
    qed
    ultimately have "2 powr (real (k + 52) + real_of_int g) \<le> 10"
      by (simp add: powr_add)
    also have "(10::real) < 2 powr 4" by simp
    finally have "2 powr (real (k + 52) + real_of_int g) < (2::real) powr 4" .
    then have "real (k + 52) + real_of_int g < 4"
      by (rule powr_less_cancel) simp
    then have neg: "g + int k < 0" by linarith
    define T :: nat where "T = 10 * 2 ^ nat (- (g + int k))"
    have Tr: "real T = 10 * 2 powr (- real_of_int (g + int k))"
      using neg by (simp add: T_def powr_realpow [symmetric])
    have "real M = real M * 2 powr real_of_int g * 2 powr (- real_of_int g)"
      by (simp add: powr_add [symmetric])
    also have "\<dots> \<le> 10 * 2 powr (- real_of_int g)"
      using bound by (rule mult_right_mono) simp
    also have "2 powr (- real_of_int g) = 2 powr (- real_of_int (g + int k)) * 2 powr real k"
      by (simp add: powr_add [symmetric])
    also have "10 * (2 powr (- real_of_int (g + int k)) * 2 powr real k) = real (T * 2 ^ k)"
      by (simp add: Tr powr_realpow)
    finally have "M \<le> T * 2 ^ k" by (simp only: of_nat_le_iff)
    then have q: "round_shift M k \<le> T" by (rule round_shift_le)
    from neg rm have rd: "round_to_double s M g = Finite s (round_shift M k) (g + int k)"
      by (simp add: round_to_double_def)
    have "real (round_shift M k) * 2 powr real_of_int (g + int k)
          \<le> real T * 2 powr real_of_int (g + int k)"
      using q by (simp add: mult_right_mono)
    also have "\<dots> = 10"
      by (simp add: Tr powr_add [symmetric] del: of_int_add)
    finally show ?thesis
      by (simp add: rd d_le_def dabs_def dval_powr del: of_int_add)
  qed
qed

lemma dsub_within:
  assumes "- 1074 \<le> e" and "- 1074 \<le> f"
      and "\<bar>dval (Finite s m e) - dval (Finite t n f)\<bar> \<le> 10"
  shows "d_le (dabs (dsub (Finite s m e) (Finite t n f))) 10"
proof -
  define g where "g = min e f"
  define a where "a = (if s then - 1 else 1) * int m * 2 ^ nat (e - g)"
  define b where "b = (if t then - 1 else 1) * int n * 2 ^ nat (f - g)"
  define d where "d = a - b"
  have ge: "g \<le> e" "g \<le> f" "- 1074 \<le> g"
    using assms(1,2) by (simp_all add: g_def)
  have "real_of_int a * 2 powr real_of_int g
        = real_of_int ((if s then - 1 else 1) * int m) * 2 powr real_of_int e"
    unfolding a_def by (rule scaled_powr [OF ge(1)])
  then have va: "real_of_int a * 2 powr real_of_int g = dval (Finite s m e)"
    by (simp add: dval_powr)
  have "real_of_int b * 2 powr real_of_int g
        = real_of_int ((if t then - 1 else 1) * int n) * 2 powr real_of_int f"
    unfolding b_def by (rule scaled_powr [OF ge(2)])
  then have vb: "real_of_int b * 2 powr real_of_int g = dval (Finite t n f)"
    by (simp add: dval_powr)
  from va vb have "real_of_int d * 2 powr real_of_int g = dval (Finite s m e) - dval (Finite t n f)"
    by (simp add: d_def left_diff_distrib)
  with assms(3) have "\<bar>real_of_int d * 2 powr real_of_int g\<bar> \<le> 10" by simp
  then have bound: "real (nat \<bar>d\<bar>) * 2 powr real_of_int g \<le> 10"
    by (simp add: abs_mult)
  have ds: "dsub (Finite s m e) (Finite t n f) =
        (if d = 0 then Finite (s \<and> \<not> t \<and> m = 0 \<and> n = 0) 0 0
         else round_to_double (d < 0) (nat \<bar>d\<bar>) g)"
    by (simp add: dsub_def Let_def g_def a_def b_def d_def)
  show ?thesis
  proof (cases "d = 0")
    case True
    with ds show ?thesis by (simp add: d_le_def dabs_def dval_def)
  next
    case False
    with ds round_to_double_within [OF ge(3) bound] show ?thesis by simp
  qed
qed

lemma dsub_within_doubles:
  assumes "is_finite x" "is_double x" "is_finite y" "is_double y"
      and "\<bar>dval x - dval y\<bar> \<le> 10"
  shows "d_le (dabs (dsub x y)) 10"
proof -
  from assms(1,2) obtain s m e where x: "x = Finite s m e" "- 1074 \<le> e"
    by (cases x) (simp_all add: is_finite_def is_double_def)
  from assms(3,4) obtain t n f where y: "y = Finite t n f" "- 1074 \<le> f"
    by (cases y) (simp_all add: is_finite_def is_double_def)
  from assms(5) show ?thesis
    unfolding x(1) y(1) by (rule dsub_within [OF x(2) y(2)])
qed

lemma bit_length_108086391056891904: "bit_length 108086391056891904 = 57"
  by (simp add: bit_length.simps)

lemma round_mantissa_108086391056891904_m55: "round_mantissa 108086391056891904 (- 55) = (6755399441055744, - 51)"
  unfolding round_mantissa_def round_shift_def Let_def bit_length_108086391056891904
  by simp

lemma bit_length_3: "bit_length 3 = 2"
  by (simp add: bit_length.simps)

lemma bit_length_1: "bit_length (Suc 0) = 1" "bit_length 1 = 1"
  by (simp_all add: bit_length.simps)

lemma nearest_quotient_3_1: "nearest_quotient 3 (Suc 0) = (6755399441055744, - 51)"
  unfolding nearest_quotient_def Let_def bit_length_3 bit_length_1
  by (simp add: round_mantissa_108086391056891904_m55)

lemma float_quotient_3_1: "float_quotient 3 1 = 3"
  by (simp add: float_quotient_def nearest_quotient_3_1 dval_def)

lemma bit_length_48038396025285291: "bit_length 48038396025285291 = 56"
  by (simp add: bit_length.simps)

lemma round_mantissa_48038396025285291_m55: "round_mantissa 48038396025285291 (- 55) = (6004799503160661, - 52)"
  unfolding round_mantissa_def round_shift_def Let_def bit_length_48038396025285291
  by simp

lemma bit_length_4: "bit_length 4 = 3"
  by (simp add: bit_length.simps)

lemma nearest_quotient_4_3: "nearest_quotient 4 3 = (6004799503160661, - 52)"
  unfolding nearest_quotient_def Let_def bit_length_4 bit_length_3
  by (simp add: round_mantissa_48038396025285291_m55)

lemma float_quotient_4_3: "float_quotient 4 3 = 6004799503160661 / 4503599627370496"
  by (simp add: float_quotient_def nearest_quotient_4_3 dval_def)

lemma bit_length_11529215046068469761: "bit_length 11529215046068469761 = 64"
  by (simp add: bit_length.simps)

lemma round_mantissa_11529215046068469761_m60: "round_mantissa 11529215046068469761 (- 60) = (5629499534213120, - 49)"
  unfolding round_mantissa_def round_shift_def Let_def bit_length_11529215046068469761
  by simp

lemma dsub_ts_10_ts_minus_tiny: "dsub ts_10 ts_minus_tiny = Finite False 5629499534213120 (- 49)"
  unfolding ts_10_def ts_minus_tiny_def dsub_def round_to_double_def Let_def
  by (simp add: round_mantissa_11529215046068469761_m60)

lemma within_ts_10_ts_minus_tiny: "d_le (dabs (dsub ts_10 ts_minus_tiny)) 10"
  by (simp add: dsub_ts_10_ts_minus_tiny d_le_def dabs_def dval_def)

lemma dsub_ts_minus_tiny_ts_10: "dsub ts_minus_tiny ts_10 = Finite True 5629499534213120 (- 49)"
  unfolding ts_10_def ts_minus_tiny_def dsub_def round_to_double_def Let_def
  by (simp add: round_mantissa_11529215046068469761_m60)

lemma within_ts_minus_tiny_ts_10: "d_le (dabs (dsub ts_minus_tiny ts_10)) 10"
  by (simp add: dsub_ts_minus_tiny_ts_10 d_le_def dabs_def dval_def)

lemma bit_length_10: "bit_length 10 = 4"
  by (simp add: bit_length.simps)

lemma round_mantissa_10_0: "round_mantissa 10 0 = (10, 0)"
  unfolding round_mantissa_def round_shift_def Let_def bit_length_10
  by simp

lemma dsub_ts_0_ts_10: "dsub ts_0 ts_10 = Finite True 10 0"
  unfolding ts_0_def ts_10_def dsub_def round_to_double_def Let_def
  by (simp add: round_mantissa_10_0)

lemma within_ts_0_ts_10: "d_le (dabs (dsub ts_0 ts_10)) 10"
  by (simp add: dsub_ts_0_ts_10 d_le_def dabs_def dval_def)

lemma bit_length_21: "bit_length 21 = 5"
  by (simp add: bit_length.simps)

lemma round_mantissa_21_m1: "round_mantissa 21 (- 1) = (21, - 1)"
  unfolding round_mantissa_def round_shift_def Let_def bit_length_21
  by simp

lemma dsub_ts_0_ts_10_5: "dsub ts_0 ts_10_5 = Finite True 21 (- 1)"
  unfolding ts_0_def ts_10_5_def dsub_def round_to_double_def Let_def
  by (simp add: round_mantissa_21_m1)

lemma within_ts_0_ts_10_5: "\<not> d_le (dabs (dsub ts_0 ts_10_5)) 10"
  by (simp add: dsub_ts_0_ts_10_5 d_le_def dabs_def dval_def)

lemma dsub_ts_10_ts_0: "dsub ts_10 ts_0 = Finite False 10 0"
  unfolding ts_0_def ts_10_def dsub_def round_to_double_def Let_def
  by (simp add: round_mantissa_10_0)

lemma within_ts_10_ts_0: "d_le (dabs (dsub ts_10 ts_0)) 10"
  by (simp add: dsub_ts_10_ts_0 d_le_def dabs_def dval_def)

lemma round_mantissa_1_m1: "round_mantissa (Suc 0) (- 1) = (1, - 1)"
  unfolding round_mantissa_def round_shift_def Let_def bit_length_1
  by simp

lemma dsub_ts_10_ts_10_5: "dsub ts_10 ts_10_5 = Finite True 1 (- 1)"
  unfolding ts_10_5_def ts_10_def dsub_def round_to_double_def Let_def
  by (simp add: round_mantissa_1_m1)

lemma within_ts_10_ts_10_5: "d_le (dabs (dsub ts_10 ts_10_5)) 10"
  by (simp add: dsub_ts_10_ts_10_5 d_le_def dabs_def dval_def)

lemma dsub_ts_10_5_ts_0: "dsub ts_10_5 ts_0 = Finite False 21 (- 1)"
  unfolding ts_0_def ts_10_5_def dsub_def round_to_double_def Let_def
  by (simp add: round_mantissa_21_m1)

lemma within_ts_10_5_ts_0: "\<not> d_le (dabs (dsub ts_10_5 ts_0)) 10"
  by (simp add: dsub_ts_10_5_ts_0 d_le_def dabs_def dval_def)

lemma dsub_ts_10_5_ts_10: "dsub ts_10_5 ts_10 = Finite False 1 (- 1)"
  unfolding ts_10_5_def ts_10_def dsub_def round_to_double_def Let_def
  by (simp add: round_mantissa_1_m1)

lemma within_ts_10_5_ts_10: "d_le (dabs (dsub ts_10_5 ts_10)) 10"
  by (simp add: dsub_ts_10_5_ts_10 d_le_def dabs_def dval_def)


section \<open>Properties of the feature extractor and the anomaly scorer\<close>

lemma py_in_sublist: "py_in ks s = sublist ks s"
  by (induction s) (simp_all add: sublist_Cons_right)

lemma py_in_iff: "py_in ks s \<longleftrightarrow> (\<exists>ps ss. s = ps @ ks @ ss)"
  by (simp add: py_in_sublist sublist_def)

lemma count_keywords_eq:
  "count_keywords kws p = int (length (filter (\<lambda>kw. py_in kw p) kws))"
  unfolding count_keywords_def by (induction kws) simp_all

lemma extract_loop_eq: "extract_loop kws recs fs = fs @ map (extract_one kws) recs"
  by (induction recs arbitrary: fs) simp_all

lemma burst_loop_eq:
  "burst_loop i ts ps b =
     b + int (length (filter (\<lambda>(j, other). j \<noteq> i \<and> d_le (dabs (dsub ts (timestamp_of other))) 10) ps))"
  by (induction i ts ps b rule: burst_loop.induct) auto

lemma loop_body_fields:
  "recent_kw_hits (loop_body E K i e l) = recent_kw_hits l @ [entry_kw_hits K e]"
  "recent_404s (loop_body E K i e l) = recent_404s l + (if is_404 e then 1 else 0)"
  "n_scanning_404s (loop_body E K i e l) = n_scanning_404s l + (if is_404 e \<and> is_scanning e then 1 else 0)"
  "recent_burst_counts (loop_body E K i e l) = recent_burst_counts l @ [burst_loop i (timestamp_of e) (enumerate 0 E) 0]"
  by (simp_all add: loop_body_def Let_def)

lemma main_loop_kw:
  "recent_kw_hits (main_loop E K ps l) = recent_kw_hits l @ map (\<lambda>(i, e). entry_kw_hits K e) ps"
  by (induction E K ps l rule: main_loop.induct) (simp_all add: loop_body_fields)

lemma main_loop_404:
  "recent_404s (main_loop E K ps l) = recent_404s l + int (length (filter (\<lambda>(i, e). is_404 e) ps))"
  by (induction E K ps l rule: main_loop.induct) (simp_all add: loop_body_fields)

lemma main_loop_scanning:
  "n_scanning_404s (main_loop E K ps l) =
     n_scanning_404s l + int (length (filter (\<lambda>(i, e). is_404 e \<and> is_scanning e) ps))"
  by (induction E K ps l rule: main_loop.induct) (simp_all add: loop_body_fields)

lemma main_loop_burst:
  "recent_burst_counts (main_loop E K ps l) =
     recent_burst_counts l @ map (\<lambda>(i, e). burst_loop i (timestamp_of e) (enumerate 0 E) 0) ps"
  by (induction E K ps l rule: main_loop.induct) (simp_all add: loop_body_fields)

lemma filter_enumerate_snd:
  "length (filter (\<lambda>(i, e). P e) (enumerate n xs)) = length (filter P xs)"
  by (induction xs arbitrary: n) simp_all

lemma map_enumerate_snd:
  "map (\<lambda>(i, e). f e) (enumerate n xs) = map f xs"
  by (induction xs arbitrary: n) simp_all

lemma run_kw: "recent_kw_hits (run_main_loop E K) = map (entry_kw_hits K) E"
  by (simp add: run_main_loop_def main_loop_kw init_locals_def map_enumerate_snd)

lemma run_404: "recent_404s (run_main_loop E K) = int (length (filter is_404 E))"
  by (simp add: run_main_loop_def main_loop_404 init_locals_def filter_enumerate_snd)

lemma run_scanning:
  "n_scanning_404s (run_main_loop E K) = int (length (filter (\<lambda>e. is_404 e \<and> is_scanning e) E))"
  by (simp add: run_main_loop_def main_loop_scanning init_locals_def filter_enumerate_snd)

lemma burst_loop_card:
  "burst_loop i ts (enumerate 0 E) 0 =
     int (card {j. j < length E \<and> j \<noteq> i \<and> d_le (dabs (dsub ts (timestamp_of (E ! j)))) 10})"
proof -
  have "{k. k < length (enumerate 0 E) \<and> (case enumerate 0 E ! k of (j, other) \<Rightarrow> j \<noteq> i \<and> d_le (dabs (dsub ts (timestamp_of other))) 10)}
        = {j. j < length E \<and> j \<noteq> i \<and> d_le (dabs (dsub ts (timestamp_of (E ! j)))) 10}"
    by (auto simp: nth_enumerate_eq)
  then show ?thesis
    by (simp add: burst_loop_eq length_filter_conv_card)
qed

lemma run_burst:
  "recent_burst_counts (run_main_loop E K) = map (burst_of E) [0..<length E]"
proof -
  have "map (\<lambda>(i, e). burst_loop i (timestamp_of e) (enumerate 0 E) 0) (enumerate 0 E)
        = map (burst_of E) [0..<length E]"
    by (rule nth_equalityI) (simp_all add: nth_enumerate_eq burst_loop_card burst_of_def)
  then show ?thesis
    by (simp add: run_main_loop_def main_loop_burst init_locals_def)
qed

lemma guarded_mean_eq:
  "guarded_mean xs = Inr (float_mean xs)"
  by (simp add: guarded_mean_def py_truediv_def float_mean_def)

lemma analyze_closed:
  "analyze_recent_behavior_python E K =
     Inr \<lparr> avg_kw_hits = (float_mean (map (entry_kw_hits K) E)),
           max_404s = int (length (filter is_404 E)),
           avg_burst = (float_mean (map (burst_of E) [0..<length E])),
           total_requests = int (length E),
           scanning_404s = int (length (filter (\<lambda>e. is_404 e \<and> is_scanning e) E)),
           legitimate_404s = int (length (filter is_404 E)) - int (length (filter (\<lambda>e. is_404 e \<and> is_scanning e) E)),
           should_block = verdict (float_mean (map (entry_kw_hits K) E))
              (int (length (filter is_404 E)))
              (int (length (filter (\<lambda>e. is_404 e \<and> is_scanning e) E)))
              (float_mean (map (burst_of E) [0..<length E]))
              (int (length E))
              (int (length (filter is_404 E)) - int (length (filter (\<lambda>e. is_404 e \<and> is_scanning e) E))) \<rparr>"
  by (simp add: analyze_recent_behavior_python_def Let_def guarded_mean_eq run_kw run_404 run_scanning run_burst)

lemma analyze_verdict:
  assumes "analyze_recent_behavior_python E K = Inr s"
  shows "should_block s = verdict (avg_kw_hits s) (max_404s s) (scanning_404s s) (avg_burst s)
           (total_requests s) (legitimate_404s s)"
  using assms
  by (auto simp: analyze_recent_behavior_python_def Let_def split: sum.splits)

lemma verdict_iff:
  "verdict a m s b n l = False \<longleftrightarrow> (a < 3 \<and> s < 5 \<and> l < 20 \<and> b < 25 \<and> n < 150) \<or> (a = 0 \<and> m = 0)"
  by (auto simp: verdict_def Let_def)

lemma sum_list_zero: "(\<forall>x \<in> set xs. f x = (0::int)) \<Longrightarrow> sum_list (map f xs) = 0"
  by (induction xs) simp_all

text \<open>
  Claim C1. For every finite sequence of entries the scorer returns a snapshot, and its
  \<open>should_block\<close> is False exactly when all five bounds hold (average keyword hits
  below 3, scanning 404s below 5, legitimate 404s below 20, average burst below 25, total
  requests below 150) or the override applies (average keyword hits 0 and no 404 at all).
  In particular a sequence whose every entry has no keyword hit and is not a 404 is never
  blocked, whatever its length, and an average of at least 3 keyword hits always blocks.
\<close>

theorem C1_verdict:
  "\<exists>s. analyze_recent_behavior_python entries kws = Inr s \<and>
     (should_block s = False \<longleftrightarrow>
        (avg_kw_hits s < 3 \<and> scanning_404s s < 5 \<and> legitimate_404s s < 20 \<and> avg_burst s < 25 \<and> total_requests s < 150)
        \<or> (avg_kw_hits s = 0 \<and> max_404s s = 0)) \<and>
     ((\<forall>e \<in> set entries. entry_kw_hits kws e = 0 \<and> \<not> is_404 e) \<longrightarrow> should_block s = False) \<and>
     (3 \<le> avg_kw_hits s \<longrightarrow> should_block s = True)"
proof -
  obtain s where s: "analyze_recent_behavior_python entries kws = Inr s"
    by (simp add: analyze_closed)
  have iff: "should_block s = False \<longleftrightarrow>
        (avg_kw_hits s < 3 \<and> scanning_404s s < 5 \<and> legitimate_404s s < 20 \<and> avg_burst s < 25 \<and> total_requests s < 150)
        \<or> (avg_kw_hits s = 0 \<and> max_404s s = 0)"
    using analyze_verdict [OF s] by (simp only: verdict_iff)
  have quiet: "should_block s = False" if q: "\<forall>e \<in> set entries. entry_kw_hits kws e = 0 \<and> \<not> is_404 e"
  proof -
    from q have "sum_list (map (entry_kw_hits kws) entries) = 0" "filter is_404 entries = []"
      by (simp_all add: sum_list_zero)
    then have "avg_kw_hits s = 0 \<and> max_404s s = 0"
      using s unfolding analyze_closed by (auto simp: float_mean_zero)
    with iff show ?thesis by blast
  qed
  have high: "should_block s = True" if "3 \<le> avg_kw_hits s"
    using iff that by auto
  from s iff quiet high show ?thesis by blast
qed

theorem C1_verdict_witness:
  "(\<exists>s. analyze_recent_behavior_python (replicate 200 quiet_entry) STATIC_KEYWORDS = Inr s \<and> total_requests s = 200 \<and> should_block s = False)
   \<and> (\<exists>s. analyze_recent_behavior_python [probe_entry] STATIC_KEYWORDS = Inr s \<and> avg_kw_hits s = 3 \<and> total_requests s = 1 \<and> should_block s = True)"
proof -
  have q: "\<forall>e \<in> set (replicate 200 quiet_entry). entry_kw_hits STATIC_KEYWORDS e = 0 \<and> \<not> is_404 e"
    by (simp add: quiet_entry_def entry_kw_hits_def is_404_def get_or_def count_keywords_def
        STATIC_KEYWORDS_def str_simps)
  have t: "\<And>s. analyze_recent_behavior_python (replicate 200 quiet_entry) STATIC_KEYWORDS = Inr s \<Longrightarrow> total_requests s = 200"
    unfolding analyze_closed by auto
  have a: "\<exists>s. analyze_recent_behavior_python (replicate 200 quiet_entry) STATIC_KEYWORDS = Inr s \<and> total_requests s = 200 \<and> should_block s = False"
    using C1_verdict [of "replicate 200 quiet_entry" STATIC_KEYWORDS] q t by blast
  have p: "\<And>s. analyze_recent_behavior_python [probe_entry] STATIC_KEYWORDS = Inr s \<Longrightarrow> avg_kw_hits s = 3 \<and> total_requests s = 1"
    unfolding analyze_closed
    by (auto simp: probe_entry_def entry_kw_hits_def get_or_def count_keywords_def
        STATIC_KEYWORDS_def str_simps float_mean_def float_quotient_3_1)
  have b: "\<exists>s. analyze_recent_behavior_python [probe_entry] STATIC_KEYWORDS = Inr s \<and> avg_kw_hits s = 3 \<and> total_requests s = 1 \<and> should_block s = True"
    using C1_verdict [of "[probe_entry]" STATIC_KEYWORDS] p by fastforce
  from a b show ?thesis by blast
qed

text \<open>
  Claim C10. On the empty sequence the scorer raises no division by zero: both guarded
  means return 0, and the snapshot has every aggregate 0 and \<open>should_block\<close> False.
\<close>

theorem C10_empty:
  "analyze_recent_behavior_python [] kws =
     Inr \<lparr> avg_kw_hits = 0, max_404s = 0, avg_burst = 0, total_requests = 0,
           scanning_404s = 0, legitimate_404s = 0, should_block = False \<rparr>
   \<and> guarded_mean (recent_kw_hits (run_main_loop [] kws)) = Inr 0
   \<and> guarded_mean (recent_burst_counts (run_main_loop [] kws)) = Inr 0"
  by (simp add: analyze_recent_behavior_python_def run_main_loop_def init_locals_def
      guarded_mean_def verdict_def Let_def)

theorem C10_empty_witness:
  "analyze_recent_behavior_python [] STATIC_KEYWORDS =
     Inr \<lparr> avg_kw_hits = 0, max_404s = 0, avg_burst = 0, total_requests = 0,
           scanning_404s = 0, legitimate_404s = 0, should_block = False \<rparr>"
  using C10_empty [of STATIC_KEYWORDS] by simp

text \<open>
  Claim C5. Feature extraction maps each request record, independently of the others, to
  one feature vector: \<open>kw_hits\<close> is the number of static keywords that occur as
  substrings of the record's lowercased path when its keyword-check flag is true (the
  default) and 0 when it is false, \<open>burst_count\<close> is 1, and the other fields are the
  record's fields, with the source's defaults where a key is absent.
\<close>

theorem C5_extract:
  "extract_features_python records kws =
     map (\<lambda>rec. \<lparr> ip = r_ip rec,
                  path_len = (case r_path_len rec of None \<Rightarrow> 0 | Some n \<Rightarrow> n),
                  kw_hits = (if (case r_kw_check rec of None \<Rightarrow> True | Some b \<Rightarrow> b)
                             then int (length (filter (\<lambda>kw. \<exists>ps ss. (case r_path_lower rec of None \<Rightarrow> [] | Some p \<Rightarrow> p) = ps @ kw @ ss) kws))
                             else 0),
                  response_time = (case r_response_time rec of None \<Rightarrow> 0 | Some t \<Rightarrow> t),
                  status_idx = (case r_status_idx rec of None \<Rightarrow> - 1 | Some n \<Rightarrow> n),
                  burst_count = 1,
                  total_404 = (case r_total_404 rec of None \<Rightarrow> 0 | Some n \<Rightarrow> n) \<rparr>) records"
  by (simp add: extract_features_python_def extract_loop_eq extract_one_def Let_def get_or_def
      count_keywords_eq py_in_iff)

theorem C5_extract_witness:
  "extract_features_python [sample_record_1, sample_record_2] STATIC_KEYWORDS =
     [\<lparr> ip = Some (str ''1.2.3.4''), path_len = 9, kw_hits = 1, response_time = 1 / 10,
        status_idx = 0, burst_count = 1, total_404 = 2 \<rparr>,
      \<lparr> ip = Some (str ''1.2.3.4''), path_len = 5, kw_hits = 0, response_time = 2 / 10,
        status_idx = 1, burst_count = 1, total_404 = 2 \<rparr>]"
  using C5_extract [of "[sample_record_1, sample_record_2]" STATIC_KEYWORDS]
  by (simp add: py_in_iff [symmetric] sample_record_1_def sample_record_2_def
      STATIC_KEYWORDS_def str_simps)

text \<open>
  Claim C6, as stated: the burst count of an entry is the number of other entries whose
  timestamp differs from its own by at most 10 seconds. It fails: the source subtracts
  the timestamps in double precision, and the rounded difference can be 10 when the
  exact one is larger. For the timestamps \<open>10.0\<close> and \<open>-2^-60\<close> the exact distance is
  \<open>10 + 2^-60\<close>, yet each entry counts the other.
\<close>

theorem C6_burst_counterexample:
  "recent_burst_counts (run_main_loop rounding_sample STATIC_KEYWORDS) = [1, 1]
   \<and> dval (timestamp_of (rounding_sample ! 0)) - dval (timestamp_of (rounding_sample ! 1)) = 10 + 1 / 2 ^ 60
   \<and> \<not> \<bar>dval (timestamp_of (rounding_sample ! 0)) - dval (timestamp_of (rounding_sample ! 1))\<bar> \<le> 10"
proof -
  have b: "recent_burst_counts (run_main_loop rounding_sample STATIC_KEYWORDS) = [1, 1]"
    by (simp add: run_main_loop_def init_locals_def loop_body_def Let_def rounding_sample_def
        timestamp_of_def get_or_def is_404_def within_ts_10_ts_minus_tiny within_ts_minus_tiny_ts_10)
  have v: "dval (timestamp_of (rounding_sample ! 0)) - dval (timestamp_of (rounding_sample ! 1)) = 10 + 1 / 2 ^ 60"
    by (simp add: rounding_sample_def timestamp_of_def get_or_def dval_def ts_10_def ts_minus_tiny_def)
  from b v show ?thesis by simp
qed

text \<open>
  Claim C6, amended. For every entry at index \<open>i\<close> the burst count the scorer records is
  the number of other indices \<open>j \<noteq> i\<close> for which the difference of the two timestamps,
  subtracted in double precision (the exact difference rounded to the nearest double), is
  at most 10 in absolute value, the boundary included; and \<open>avg_burst\<close> is the sum of
  these counts divided by their number as float division computes it (0 for no entries).
  For finite timestamps every other entry whose timestamp is exactly within 10 seconds is
  among those counted; one slightly farther away is counted too when the difference
  rounds to 10.
\<close>

theorem C6_burst:
  "length (recent_burst_counts (run_main_loop entries kws)) = length entries \<and>
   (\<forall>i < length entries.
      recent_burst_counts (run_main_loop entries kws) ! i =
        int (card {j. j < length entries \<and> j \<noteq> i \<and>
                      d_le (dabs (dsub (timestamp_of (entries ! i)) (timestamp_of (entries ! j)))) 10})) \<and>
   (\<forall>i < length entries. \<forall>j < length entries.
      is_finite (timestamp_of (entries ! i)) \<and> is_double (timestamp_of (entries ! i)) \<and>
      is_finite (timestamp_of (entries ! j)) \<and> is_double (timestamp_of (entries ! j)) \<and>
      \<bar>dval (timestamp_of (entries ! i)) - dval (timestamp_of (entries ! j))\<bar> \<le> 10
      \<longrightarrow> d_le (dabs (dsub (timestamp_of (entries ! i)) (timestamp_of (entries ! j)))) 10) \<and>
   (\<exists>s. analyze_recent_behavior_python entries kws = Inr s \<and>
        avg_burst s = (if entries = [] then 0
                       else float_quotient (sum_list (recent_burst_counts (run_main_loop entries kws)))
                              (int (length entries))))"
proof -
  have counts: "length (recent_burst_counts (run_main_loop entries kws)) = length entries \<and>
   (\<forall>i < length entries.
      recent_burst_counts (run_main_loop entries kws) ! i =
        int (card {j. j < length entries \<and> j \<noteq> i \<and>
                      d_le (dabs (dsub (timestamp_of (entries ! i)) (timestamp_of (entries ! j)))) 10}))"
    by (simp add: run_burst burst_of_def)
  have avg: "\<exists>s. analyze_recent_behavior_python entries kws = Inr s \<and>
        avg_burst s = (if entries = [] then 0
                       else float_quotient (sum_list (recent_burst_counts (run_main_loop entries kws)))
                              (int (length entries)))"
    by (simp add: run_burst analyze_closed float_mean_def)
  from counts avg show ?thesis
    by (blast intro: dsub_within_doubles)
qed

theorem C6_burst_witness:
  "recent_burst_counts (run_main_loop burst_sample STATIC_KEYWORDS) = [1, 2, 1] \<and>
   \<bar>dval (timestamp_of (burst_sample ! 0)) - dval (timestamp_of (burst_sample ! 1))\<bar> \<le> 10 \<and>
   d_le (dabs (dsub (timestamp_of (burst_sample ! 0)) (timestamp_of (burst_sample ! 1)))) 10 \<and>
   int (card {j. j < length burst_sample \<and> j \<noteq> 1 \<and>
                 d_le (dabs (dsub (timestamp_of (burst_sample ! 1)) (timestamp_of (burst_sample ! j)))) 10}) = 2 \<and>
   (\<exists>s. analyze_recent_behavior_python burst_sample STATIC_KEYWORDS = Inr s \<and>
        avg_burst s = 6004799503160661 / 4503599627370496)"
proof -
  have ev: "recent_burst_counts (run_main_loop burst_sample STATIC_KEYWORDS) = [1, 2, 1]"
    by (simp add: run_main_loop_def init_locals_def loop_body_def Let_def burst_sample_def
        timestamp_of_def get_or_def is_404_def within_ts_0_ts_10 within_ts_0_ts_10_5
        within_ts_10_ts_0 within_ts_10_ts_10_5 within_ts_10_5_ts_0 within_ts_10_5_ts_10)
  have len: "length burst_sample = 3" "burst_sample \<noteq> []"
    by (simp_all add: burst_sample_def)
  from C6_burst [of burst_sample STATIC_KEYWORDS] have
    c6: "\<forall>i < length burst_sample.
      recent_burst_counts (run_main_loop burst_sample STATIC_KEYWORDS) ! i =
        int (card {j. j < length burst_sample \<and> j \<noteq> i \<and>
                      d_le (dabs (dsub (timestamp_of (burst_sample ! i)) (timestamp_of (burst_sample ! j)))) 10})"
    and w: "\<forall>i < length burst_sample. \<forall>j < length burst_sample.
      is_finite (timestamp_of (burst_sample ! i)) \<and> is_double (timestamp_of (burst_sample ! i)) \<and>
      is_finite (timestamp_of (burst_sample ! j)) \<and> is_double (timestamp_of (burst_sample ! j)) \<and>
      \<bar>dval (timestamp_of (burst_sample ! i)) - dval (timestamp_of (burst_sample ! j))\<bar> \<le> 10
      \<longrightarrow> d_le (dabs (dsub (timestamp_of (burst_sample ! i)) (timestamp_of (burst_sample ! j)))) 10"
    and a: "\<exists>s. analyze_recent_behavior_python burst_sample STATIC_KEYWORDS = Inr s \<and>
        avg_burst s = (if burst_sample = [] then 0
                       else float_quotient (sum_list (recent_burst_counts (run_main_loop burst_sample STATIC_KEYWORDS)))
                              (int (length burst_sample)))"
    by blast+
  have t: "timestamp_of (burst_sample ! 0) = ts_0" "timestamp_of (burst_sample ! 1) = ts_10"
    by (simp_all add: burst_sample_def timestamp_of_def get_or_def)
  have fin: "is_finite ts_0" "is_double ts_0" "is_finite ts_10" "is_double ts_10"
    "\<bar>dval ts_0 - dval ts_10\<bar> \<le> 10"
    by (simp_all add: ts_0_def ts_10_def is_finite_def is_double_def dval_def)
  have near: "d_le (dabs (dsub (timestamp_of (burst_sample ! 0)) (timestamp_of (burst_sample ! 1)))) 10"
    apply (rule w [rule_format, of 0 1])
    unfolding t using len fin by simp_all
  from fin have exact: "\<bar>dval (timestamp_of (burst_sample ! 0)) - dval (timestamp_of (burst_sample ! 1))\<bar> \<le> 10"
    unfolding t by simp
  from c6 len have "[1, 2, 1] ! 1 = int (card {j. j < length burst_sample \<and> j \<noteq> 1 \<and>
                 d_le (dabs (dsub (timestamp_of (burst_sample ! 1)) (timestamp_of (burst_sample ! j)))) 10})"
    unfolding ev [symmetric] by simp
  moreover from a have "\<exists>s. analyze_recent_behavior_python burst_sample STATIC_KEYWORDS = Inr s \<and>
        avg_burst s = 6004799503160661 / 4503599627370496"
    unfolding ev using len by (simp add: float_quotient_4_3)
  ultimately show ?thesis using ev near exact by simp
qed

section \<open>Properties of the extended request info\<close>

lemmas size_eval = fits_def serialized_size_def dumps_compact_def info_items_def json_object_text_def
  json_value_text_def json_string_def json_escape_char_def utf8_len_def utf8_char_len_def str_simps

lemmas select_eval = selected_headers_of_def get_or_def redact_set_def py_strip_def is_space_def
  ascii_lower_def ascii_upper_def environ_headers_def environ_key_def Let_def REDACTED_def str_simps

lemma degrade_refines: "degrade m req pl = degrade_spec m req pl"
proof -
  have q: "p_query pl = [] \<Longrightarrow> pl\<lparr>p_headers := [], p_query := []\<rparr> = pl\<lparr>p_headers := []\<rparr>"
    by simp
  have u: "\<And>x::payload. p_url x = [] \<Longrightarrow> x\<lparr>p_url := []\<rparr> = x"
    by simp
  show ?thesis
    by (auto simp: degrade_def degrade_spec_def spec_stages_def Let_def q u)
qed

lemma degrade_cases:
  "fits m (degrade m req pl) \<or> degrade m req pl = Minimal (req_path req) (req_method req) (req_host req)"
  by (simp add: degrade_def Let_def)

lemma degrade_headers:
  "degrade m req pl = Payload p \<Longrightarrow> p_headers p = p_headers pl \<or> p_headers p = []"
  by (auto simp: degrade_def Let_def split: if_splits)

lemma set_dict_set: "set (dict_set d k v) \<subseteq> insert (k, v) (set d)"
  by (induction d k v rule: dict_set.induct) auto

lemma select_loop_values:
  assumes "\<forall>(k, v) \<in> set sel. v = (if lower k \<in> rset then REDACTED else the (hs k))"
  shows "\<forall>(k, v) \<in> set (select_loop lower rset hs names sel).
           v = (if lower k \<in> rset then REDACTED else the (hs k))"
  using assms
proof (induction names arbitrary: sel)
  case Nil
  then show ?case by simp
next
  case (Cons name names)
  have step: "\<forall>(k, v) \<in> set (dict_set sel key w). v = (if lower k \<in> rset then REDACTED else the (hs k))"
    if "w = (if lower key \<in> rset then REDACTED else the (hs key))" for key w
    using Cons.prems set_dict_set [of sel key w] that by auto
  show ?case
  proof (cases "name = []")
    case True
    with Cons show ?thesis by simp
  next
    case False
    show ?thesis
    proof (cases "hs (py_strip name)")
      case None
      with False Cons show ?thesis by simp
    next
      case (Some v)
      show ?thesis
      proof (cases "lower (py_strip name) \<in> rset")
        case True
        have "\<forall>(k, v) \<in> set (dict_set sel (py_strip name) REDACTED).
                v = (if lower k \<in> rset then REDACTED else the (hs k))"
          by (rule step) (simp add: True)
        from Cons.IH [OF this] False Some True show ?thesis by simp
      next
        case notin: False
        have "\<forall>(k, w) \<in> set (dict_set sel (py_strip name) v).
                w = (if lower k \<in> rset then REDACTED else the (hs k))"
          by (rule step) (simp add: notin Some)
        from Cons.IH [OF this] False Some notin show ?thesis by simp
      qed
    qed
  qed
qed

lemma select_loop_agree:
  assumes "\<forall>name \<in> set names. name \<noteq> [] \<longrightarrow>
             (h1 (py_strip name) = None) = (h2 (py_strip name) = None)"
      and "\<forall>name \<in> set names. name \<noteq> [] \<longrightarrow> lower (py_strip name) \<notin> rset \<longrightarrow>
             h1 (py_strip name) = h2 (py_strip name)"
  shows "select_loop lower rset h1 names sel = select_loop lower rset h2 names sel"
  using assms
proof (induction names arbitrary: sel)
  case Nil
  show ?case by simp
next
  case (Cons name names)
  have IH: "select_loop lower rset h1 names sel' = select_loop lower rset h2 names sel'" for sel'
    using Cons.prems by (intro Cons.IH) simp_all
  show ?case
  proof (cases "name = []")
    case True
    with IH show ?thesis by simp
  next
    case nonempty: False
    from Cons.prems(1) nonempty
    have pres: "(h1 (py_strip name) = None) = (h2 (py_strip name) = None)" by simp
    show ?thesis
    proof (cases "h1 (py_strip name)")
      case None
      with pres have "h2 (py_strip name) = None" by simp
      with None nonempty IH show ?thesis by simp
    next
      case (Some v)
      with pres have "h2 (py_strip name) \<noteq> None" by (metis option.distinct(1))
      then obtain w where w: "h2 (py_strip name) = Some w" by auto
      show ?thesis
      proof (cases "lower (py_strip name) \<in> rset")
        case True
        with Some w nonempty IH show ?thesis by simp
      next
        case False
        with Cons.prems(2) nonempty Some w have "v = w" by simp
        with False Some w nonempty IH show ?thesis by simp
      qed
    qed
  qed
qed

lemma long_path_selected:
  "selected_headers_of ascii_lower (test_config n) long_path_request =
     [(str ''User-Agent'', str ''agent-yyyyyyyy''), (str ''Authorization'', str ''[REDACTED]'')]"
  by (simp add: select_eval test_config_def long_path_request_def)

lemma long_path_short:
  "take 256 (req_query long_path_request) = req_query long_path_request"
  "take 256 (req_url long_path_request) = req_url long_path_request"
  "req_query long_path_request \<noteq> []" "req_url long_path_request \<noteq> []"
  by (simp_all add: long_path_request_def str_simps)

lemma long_path_sizes:
  "serialized_size (Payload (full_payload ascii_lower (test_config n) long_path_request)) = 267"
  "serialized_size (Payload ((full_payload ascii_lower (test_config n) long_path_request)\<lparr> p_headers := [] \<rparr>)) = 209"
  by (simp_all add: full_payload_def long_path_selected)
     (simp_all add: long_path_request_def size_eval)

lemma long_path_degrade:
  "degrade m long_path_request (full_payload ascii_lower (test_config n) long_path_request) =
     (if 267 \<le> m then Payload (full_payload ascii_lower (test_config n) long_path_request)
      else if 209 \<le> m
           then Payload ((full_payload ascii_lower (test_config n) long_path_request)\<lparr> p_headers := [] \<rparr>)
           else Minimal (req_path long_path_request) (req_method long_path_request)
                  (req_host long_path_request))"
proof -
  let ?pl = "full_payload ascii_lower (test_config n) long_path_request"
  have f: "p_query ?pl = req_query long_path_request" "p_url ?pl = req_url long_path_request"
    by (simp_all add: full_payload_def)
  have same: "?pl\<lparr> p_headers := [], p_query := req_query long_path_request \<rparr> = ?pl\<lparr> p_headers := [] \<rparr>"
    "?pl\<lparr> p_headers := [], p_url := req_url long_path_request \<rparr> = ?pl\<lparr> p_headers := [] \<rparr>"
    by (simp_all add: full_payload_def)
  show ?thesis
    by (simp add: degrade_def Let_def fits_def f long_path_short long_path_sizes same)
qed

text \<open>
  Claim C2. With capture enabled the builder returns the first of these that fits the
  byte budget, each one serialized and measured anew: (1) the full payload with the
  selected headers; (2) the same with the headers emptied; (3) that with the query cut to
  its first 256 characters; (4) that with the url cut to its first 256 characters; and
  otherwise (5) the minimal \<open>{path, method, host, truncated: True}\<close>. The source skips
  the measurement of (3) or (4) when the query or url is empty; the stage then equals the
  one before it, which did not fit, so the result is the same.
\<close>

theorem C2_degradation_order:
  assumes "cfg_capture cfg = Some True"
  shows "build_request_info lower cfg (Some req) =
           Some (let m = (case cfg_max_bytes cfg of None \<Rightarrow> 4096 | Some n \<Rightarrow> n);
                     s1 = full_payload lower cfg req;
                     s2 = s1\<lparr> p_headers := [] \<rparr>;
                     s3 = s2\<lparr> p_query := take 256 (p_query s2) \<rparr>;
                     s4 = s3\<lparr> p_url := take 256 (p_url s3) \<rparr>
                 in if int (serialized_size (Payload s1)) \<le> m then Payload s1
                    else if int (serialized_size (Payload s2)) \<le> m then Payload s2
                    else if int (serialized_size (Payload s3)) \<le> m then Payload s3
                    else if int (serialized_size (Payload s4)) \<le> m then Payload s4
                    else Minimal (req_path req) (req_method req) (req_host req))
         \<and> degrade (get_or (cfg_max_bytes cfg) 4096) req (full_payload lower cfg req)
             = degrade_spec (get_or (cfg_max_bytes cfg) 4096) req (full_payload lower cfg req)"
  using assms
  by (simp add: build_request_info_def get_or_def degrade_refines degrade_spec_def spec_stages_def
      Let_def fits_def)

theorem C2_degradation_order_witness:
  "build_request_info ascii_lower (test_config 250) (Some long_path_request) =
     Some (Payload \<lparr> p_url = req_url long_path_request, p_path = req_path long_path_request,
                     p_query = req_query long_path_request, p_method = req_method long_path_request,
                     p_host = req_host long_path_request, p_headers = [] \<rparr>)"
proof -
  have c: "cfg_capture (test_config 250) = Some True" "cfg_max_bytes (test_config 250) = Some 250"
    by (simp_all add: test_config_def)
  show ?thesis
    using C2_degradation_order [OF c(1), of ascii_lower long_path_request] long_path_sizes [of 250]
    by (simp add: c Let_def) (simp add: full_payload_def)
qed

text \<open>
  Claim C3, as stated: every value the builder returns serializes to at most the
  configured number of bytes. It fails: the minimal fallback is returned without being
  measured. With a budget of 64 bytes and a 38-character path no measured stage fits and
  the fallback, 103 bytes long, is returned.
\<close>

theorem C3_budget_counterexample:
  "build_request_info ascii_lower (test_config 64) (Some long_path_request) =
     Some (Minimal (str ''/very/long/path/for/testing/size/limit'') (str ''POST'') (str ''example.com''))
   \<and> serialized_size (Minimal (str ''/very/long/path/for/testing/size/limit'') (str ''POST'') (str ''example.com'')) = 103
   \<and> \<not> fits 64 (Minimal (str ''/very/long/path/for/testing/size/limit'') (str ''POST'') (str ''example.com''))"
proof -
  have b: "build_request_info ascii_lower (test_config 64) (Some long_path_request) =
     Some (Minimal (req_path long_path_request) (req_method long_path_request) (req_host long_path_request))"
    by (simp add: build_request_info_def long_path_degrade)
       (simp add: test_config_def get_or_def)
  have s: "serialized_size (Minimal (str ''/very/long/path/for/testing/size/limit'') (str ''POST'') (str ''example.com'')) = 103"
    by (simp add: size_eval)
  from b s show ?thesis
    by (simp add: long_path_request_def fits_def)
qed

text \<open>
  Claim C3, amended. Every value the builder returns either serializes to at most the
  configured number of UTF-8 bytes or is the minimal fallback
  \<open>{path, method, host, truncated: True}\<close> of the request, which is returned unmeasured.
\<close>

theorem C3_budget_or_minimal:
  assumes "build_request_info lower cfg ctx = Some i"
  shows "int (serialized_size i) \<le> (case cfg_max_bytes cfg of None \<Rightarrow> 4096 | Some n \<Rightarrow> n)
         \<or> (\<exists>req. ctx = Some req \<and> i = Minimal (req_path req) (req_method req) (req_host req))"
proof (cases ctx)
  case None
  with assms show ?thesis by (simp add: build_request_info_def)
next
  case (Some req)
  with assms have i: "i = degrade (get_or (cfg_max_bytes cfg) 4096) req (full_payload lower cfg req)"
    by (simp add: build_request_info_def split: if_splits)
  from degrade_cases [of "get_or (cfg_max_bytes cfg) 4096" req "full_payload lower cfg req"]
  show ?thesis
    unfolding i [symmetric] using Some by (auto simp: fits_def get_or_def)
qed

theorem C3_budget_or_minimal_witness:
  "build_request_info ascii_lower (test_config 250) (Some long_path_request) =
     Some (Payload \<lparr> p_url = req_url long_path_request, p_path = req_path long_path_request,
                     p_query = req_query long_path_request, p_method = req_method long_path_request,
                     p_host = req_host long_path_request, p_headers = [] \<rparr>)
   \<and> int (serialized_size (Payload \<lparr> p_url = req_url long_path_request, p_path = req_path long_path_request,
                     p_query = req_query long_path_request, p_method = req_method long_path_request,
                     p_host = req_host long_path_request, p_headers = [] \<rparr>)) \<le> 250"
proof -
  have b: "build_request_info ascii_lower (test_config 250) (Some long_path_request) =
     Some (Payload \<lparr> p_url = req_url long_path_request, p_path = req_path long_path_request,
                     p_query = req_query long_path_request, p_method = req_method long_path_request,
                     p_host = req_host long_path_request, p_headers = [] \<rparr>)"
    by (simp add: build_request_info_def long_path_degrade)
       (simp add: test_config_def get_or_def full_payload_def)
  from C3_budget_or_minimal [OF b] b show ?thesis
    by (simp add: test_config_def)
qed

text \<open>
  Claim C8, as stated: the payload never depends on the value of a redacted header. It
  fails when a second captured name that does not fold into the redaction set reads the
  same header: the framework's accessor identifies \<open>-\<close> with \<open>_\<close>, the redaction test
  does not. With \<open>X-Api-Key\<close> redacted and both \<open>X-Api-Key\<close> and \<open>X_Api_Key\<close> captured,
  two requests that differ only in the value of that header give different payloads.
\<close>

theorem C8_redaction_counterexample:
  "build_request_info ascii_lower alias_config (Some (api_request (str ''key-one''))) =
     Some (Payload \<lparr> p_url = str ''https://example.com/api'', p_path = str ''/api'',
                     p_query = [], p_method = str ''GET'', p_host = str ''example.com'',
                     p_headers = [(str ''X-Api-Key'', str ''[REDACTED]''),
                                  (str ''X_Api_Key'', str ''key-one'')] \<rparr>)
   \<and> build_request_info ascii_lower alias_config (Some (api_request (str ''key-two''))) =
     Some (Payload \<lparr> p_url = str ''https://example.com/api'', p_path = str ''/api'',
                     p_query = [], p_method = str ''GET'', p_host = str ''example.com'',
                     p_headers = [(str ''X-Api-Key'', str ''[REDACTED]''),
                                  (str ''X_Api_Key'', str ''key-two'')] \<rparr>)
   \<and> build_request_info ascii_lower alias_config (Some (api_request (str ''key-one'')))
       \<noteq> build_request_info ascii_lower alias_config (Some (api_request (str ''key-two'')))"
proof -
  have sel: "selected_headers_of ascii_lower alias_config (api_request v) =
      [(str ''X-Api-Key'', str ''[REDACTED]''), (str ''X_Api_Key'', v)]" for v
    by (simp add: select_eval alias_config_def api_request_def)
  have one: "build_request_info ascii_lower alias_config (Some (api_request (str ''key-one''))) =
     Some (Payload \<lparr> p_url = str ''https://example.com/api'', p_path = str ''/api'',
                     p_query = [], p_method = str ''GET'', p_host = str ''example.com'',
                     p_headers = [(str ''X-Api-Key'', str ''[REDACTED]''),
                                  (str ''X_Api_Key'', str ''key-one'')] \<rparr>)"
    by (simp add: build_request_info_def degrade_def full_payload_def sel)
       (simp add: alias_config_def api_request_def get_or_def size_eval)
  have two: "build_request_info ascii_lower alias_config (Some (api_request (str ''key-two''))) =
     Some (Payload \<lparr> p_url = str ''https://example.com/api'', p_path = str ''/api'',
                     p_query = [], p_method = str ''GET'', p_host = str ''example.com'',
                     p_headers = [(str ''X-Api-Key'', str ''[REDACTED]''),
                                  (str ''X_Api_Key'', str ''key-two'')] \<rparr>)"
    by (simp add: build_request_info_def degrade_def full_payload_def sel)
       (simp add: alias_config_def api_request_def get_or_def size_eval)
  have "str ''key-one'' \<noteq> str ''key-two''"
    by (simp add: str_simps)
  with one two show ?thesis by simp
qed

text \<open>
  Claim C8, amended. In every payload the builder returns, a captured header whose
  stripped name folds to a member of the redaction set carries the marker \<open>[REDACTED]\<close>,
  and any other captured header carries the value the request has under that name. Hence
  two requests that agree on url, path, query, method and host, have the same captured
  headers present, and agree on the value read under every captured name that does not
  fold into the redaction set, give the same payload: they may differ at will in the
  values read under the redacted names.
\<close>

theorem C8_redaction:
  assumes "req_url r1 = req_url r2" and "req_path r1 = req_path r2"
      and "req_query r1 = req_query r2" and "req_method r1 = req_method r2"
      and "req_host r1 = req_host r2"
      and "\<forall>name \<in> set (get_or (cfg_capture_headers cfg) DEFAULT_CAPTURE_HEADERS). name \<noteq> [] \<longrightarrow>
             (req_headers r1 (py_strip name) = None) = (req_headers r2 (py_strip name) = None)"
      and "\<forall>name \<in> set (get_or (cfg_capture_headers cfg) DEFAULT_CAPTURE_HEADERS). name \<noteq> [] \<longrightarrow>
             lower (py_strip name) \<notin> redact_set lower (get_or (cfg_redact_headers cfg) DEFAULT_REDACT_HEADERS) \<longrightarrow>
             req_headers r1 (py_strip name) = req_headers r2 (py_strip name)"
  shows "build_request_info lower cfg (Some r1) = build_request_info lower cfg (Some r2)
         \<and> (\<forall>p k v. build_request_info lower cfg (Some r1) = Some (Payload p)
                     \<longrightarrow> (k, v) \<in> set (p_headers p)
                     \<longrightarrow> v = (if lower k \<in> redact_set lower (get_or (cfg_redact_headers cfg) DEFAULT_REDACT_HEADERS)
                              then REDACTED else the (req_headers r1 k)))"
proof -
  have sel: "selected_headers_of lower cfg r1 = selected_headers_of lower cfg r2"
    unfolding selected_headers_of_def using assms(6,7) by (rule select_loop_agree)
  have full: "full_payload lower cfg r1 = full_payload lower cfg r2"
    by (simp add: full_payload_def sel assms(1-5))
  have deg: "degrade m r1 pl = degrade m r2 pl" for m pl
    by (simp add: degrade_def Let_def assms(2,4,5))
  have eq: "build_request_info lower cfg (Some r1) = build_request_info lower cfg (Some r2)"
    by (simp add: build_request_info_def full deg)
  have vals: "\<forall>(k, v) \<in> set (selected_headers_of lower cfg r1).
      v = (if lower k \<in> redact_set lower (get_or (cfg_redact_headers cfg) DEFAULT_REDACT_HEADERS)
           then REDACTED else the (req_headers r1 k))"
    unfolding selected_headers_of_def by (rule select_loop_values) simp
  have red: "v = (if lower k \<in> redact_set lower (get_or (cfg_redact_headers cfg) DEFAULT_REDACT_HEADERS)
                  then REDACTED else the (req_headers r1 k))"
    if b: "build_request_info lower cfg (Some r1) = Some (Payload p)" and kv: "(k, v) \<in> set (p_headers p)"
    for p k v
  proof -
    from b have "degrade (get_or (cfg_max_bytes cfg) 4096) r1 (full_payload lower cfg r1) = Payload p"
      by (simp add: build_request_info_def split: if_splits)
    from degrade_headers [OF this] kv
    have "(k, v) \<in> set (selected_headers_of lower cfg r1)"
      by (auto simp: full_payload_def)
    with vals show ?thesis by blast
  qed
  from eq red show ?thesis by blast
qed

theorem C8_redaction_witness:
  "build_request_info ascii_lower (test_config 8192) (Some (login_request (str ''Bearer secret'')))
     = build_request_info ascii_lower (test_config 8192) (Some (login_request (str ''Bearer other'')))
   \<and> build_request_info ascii_lower (test_config 8192) (Some (login_request (str ''Bearer secret'')))
     = Some (Payload \<lparr> p_url = str ''https://example.com/login?x=1'', p_path = str ''/login'',
                       p_query = str ''x=1'', p_method = str ''POST'', p_host = str ''example.com'',
                       p_headers = [(str ''User-Agent'', str ''pytest-agent''),
                                    (str ''Authorization'', str ''[REDACTED]'')] \<rparr>)"
proof -
  let ?r1 = "login_request (str ''Bearer secret'')" and ?r2 = "login_request (str ''Bearer other'')"
  have f: "req_url ?r1 = req_url ?r2" "req_path ?r1 = req_path ?r2" "req_query ?r1 = req_query ?r2"
    "req_method ?r1 = req_method ?r2" "req_host ?r1 = req_host ?r2"
    by (simp_all add: login_request_def)
  have cap: "get_or (cfg_capture_headers (test_config 8192)) DEFAULT_CAPTURE_HEADERS
               = [str ''User-Agent'', str ''Authorization'']"
    by (simp add: test_config_def get_or_def)
  have rs: "redact_set ascii_lower (get_or (cfg_redact_headers (test_config 8192)) DEFAULT_REDACT_HEADERS)
              = {str ''authorization''}"
    by (simp add: test_config_def select_eval)
  have look: "req_headers (login_request v) (py_strip (str ''User-Agent'')) = Some (str ''pytest-agent'')"
    "req_headers (login_request v) (py_strip (str ''Authorization'')) = Some v"
    "ascii_lower (py_strip (str ''Authorization'')) = str ''authorization''" for v
    by (simp_all add: login_request_def select_eval)
  have p: "\<forall>name \<in> set (get_or (cfg_capture_headers (test_config 8192)) DEFAULT_CAPTURE_HEADERS). name \<noteq> [] \<longrightarrow>
             (req_headers ?r1 (py_strip name) = None) = (req_headers ?r2 (py_strip name) = None)"
    unfolding cap by (simp add: look)
  have n: "\<forall>name \<in> set (get_or (cfg_capture_headers (test_config 8192)) DEFAULT_CAPTURE_HEADERS). name \<noteq> [] \<longrightarrow>
             ascii_lower (py_strip name) \<notin> redact_set ascii_lower (get_or (cfg_redact_headers (test_config 8192)) DEFAULT_REDACT_HEADERS) \<longrightarrow>
             req_headers ?r1 (py_strip name) = req_headers ?r2 (py_strip name)"
    unfolding cap rs by (simp add: look)
  have sel: "selected_headers_of ascii_lower (test_config 8192) ?r1 =
      [(str ''User-Agent'', str ''pytest-agent''), (str ''Authorization'', str ''[REDACTED]'')]"
    by (simp add: select_eval test_config_def login_request_def)
  have b: "build_request_info ascii_lower (test_config 8192) (Some ?r1)
     = Some (Payload \<lparr> p_url = str ''https://example.com/login?x=1'', p_path = str ''/login'',
                       p_query = str ''x=1'', p_method = str ''POST'', p_host = str ''example.com'',
                       p_headers = [(str ''User-Agent'', str ''pytest-agent''),
                                    (str ''Authorization'', str ''[REDACTED]'')] \<rparr>)"
    by (simp add: build_request_info_def degrade_def full_payload_def sel)
       (simp add: test_config_def login_request_def get_or_def size_eval)
  from C8_redaction [OF f p n] b show ?thesis by simp
qed

section \<open>Properties of the honeypot timing detector\<close>

lemma str_POST_neq_GET: "str ''POST'' \<noteq> str ''GET''"
  by (simp add: str_simps)

lemma hp_bit_length_2638827906662: "bit_length 2638827906662 = 42"
  by (simp add: bit_length.simps)

lemma hp_round_mantissa_2638827906662_m43: "round_mantissa 2638827906662 (- 43) = (2638827906662, - 43)"
  unfolding round_mantissa_def round_shift_def Let_def hp_bit_length_2638827906662
  by simp

lemma dsub_t_1000_3_t_1000: "dsub t_1000_3 t_1000 = Finite False 2638827906662 (- 43)"
  unfolding t_1000_3_def t_1000_def dsub_def round_to_double_def Let_def
  by (simp add: hp_round_mantissa_2638827906662_m43)

lemma hp_bit_length_2: "bit_length 2 = 2"
  by (simp add: bit_length.simps)

lemma hp_round_mantissa_2_0: "round_mantissa 2 0 = (2, 0)"
  unfolding round_mantissa_def round_shift_def Let_def hp_bit_length_2
  by simp

lemma dsub_t_1002_t_1000: "dsub t_1002 t_1000 = Finite False 2 0"
  unfolding t_1000_def t_1002_def dsub_def round_to_double_def Let_def
  by (simp add: hp_round_mantissa_2_0)


lemma fast_delta: "d_less (dsub t_1000_3 t_1000) (1 / 2)"
  by (simp add: dsub_t_1000_3_t_1000 d_less_def dval_def)

lemma slow_delta: "\<not> d_less (dsub t_1002 t_1000) (1 / 2)"
  by (simp add: dsub_t_1002_t_1000 d_less_def dval_def)

lemma fast_delta_text: "format_2f (dsub t_1000_3 t_1000) = str ''0.30''"
  unfolding dsub_t_1000_3_t_1000 format_2f_def round_shift_def Let_def
  by (simp add: decimal.simps str_simps)

lemma test_env_fields:
  "hp_applies (test_env m t a)" "hp_authenticated (test_env m t a) = a"
  "get_or (hp_skip_authenticated (test_env m t a)) True"
  "req_method (hp_request (test_env m t a)) = m" "hp_ip (test_env m t a) = client_ip"
  "hp_now (test_env m t a) = t" "get_or (hp_min_form_time (test_env m t a)) 1 = 1 / 2"
  "hp_config (test_env m t a) = plain_config"
  by (simp_all add: test_env_def form_request_def get_or_def)

lemma plain_config_info: "build_request_info lower plain_config ctx = None"
  by (simp add: build_request_info_def plain_config_def get_or_def split: option.splits)

text \<open>
  Claim C4, as stated: for every client a POST is blocked exactly when a GET timestamp is
  stored and the time since it is below the minimum form time, and a GET stores its
  timestamp. It fails for a request the handler skips: with the default
  \<open>AIWAF_HONEYPOT_SKIP_AUTHENTICATED\<close> an authenticated client's POST, 0.3 seconds after a
  stored GET and with a minimum form time of 0.5, is not blocked, and an authenticated
  client's GET stores nothing.
\<close>

theorem C4_honeypot_counterexample:
  "aiwaf_cache stored_state (honeypot_key client_ip) = Some t_1000
   \<and> d_less (dsub t_1000_3 t_1000) (1 / 2)
   \<and> before_request ascii_lower (test_env (str ''POST'') t_1000_3 True) stored_state = (None, stored_state)
   \<and> before_request ascii_lower (test_env (str ''GET'') t_1000 True) empty_state = (None, empty_state)"
  by (simp add: fast_delta before_request_def test_env_fields stored_state_def)

text \<open>
  Claim C4, amended. When the handler does not skip the request (the route is not exempt
  from the honeypot detector, and the request is not an authenticated one skipped under
  \<open>AIWAF_HONEYPOT_SKIP_AUTHENTICATED\<close>): a POST is blocked exactly when a GET timestamp is
  stored for the client and \<open>now - get_time\<close>, subtracted in double precision, is below
  the minimum form time; the client is then blacklisted with the reason
  \<open>Form submitted too quickly (\<dots>s)\<close> showing that difference with two decimals; a POST
  that is not blocked, in particular one without a stored GET, leaves the state as it
  is; a GET is never blocked and only stores the current time under the client's key.
  A request the handler skips is not blocked and changes nothing.
\<close>

theorem C4_honeypot:
  "(hp_applies env \<and> \<not> (get_or (hp_skip_authenticated env) True \<and> hp_authenticated env) \<longrightarrow>
      (req_method (hp_request env) = str ''POST'' \<longrightarrow>
         (fst (before_request lower env st) = Some Blocked_403 \<longleftrightarrow>
            (\<exists>get_time. aiwaf_cache st (honeypot_key (hp_ip env)) = Some get_time \<and>
                 d_less (dsub (hp_now env) get_time) (get_or (hp_min_form_time env) 1))) \<and>
         (\<forall>get_time. aiwaf_cache st (honeypot_key (hp_ip env)) = Some get_time \<longrightarrow>
              d_less (dsub (hp_now env) get_time) (get_or (hp_min_form_time env) 1) \<longrightarrow>
              snd (before_request lower env st) =
                st\<lparr> blacklist := (blacklist st)(hp_ip env \<mapsto>
                       (str ''Form submitted too quickly ('' @ format_2f (dsub (hp_now env) get_time) @ str ''s)'',
                        build_request_info lower (hp_config env) (Some (hp_request env)))) \<rparr>) \<and>
         (fst (before_request lower env st) = None \<longrightarrow> snd (before_request lower env st) = st) \<and>
         (aiwaf_cache st (honeypot_key (hp_ip env)) = None \<longrightarrow> before_request lower env st = (None, st)))
      \<and> (req_method (hp_request env) = str ''GET'' \<longrightarrow>
            before_request lower env st =
              (None, st\<lparr> aiwaf_cache := (aiwaf_cache st)(honeypot_key (hp_ip env) \<mapsto> hp_now env) \<rparr>)))
   \<and> (\<not> hp_applies env \<or> (get_or (hp_skip_authenticated env) True \<and> hp_authenticated env) \<longrightarrow>
        before_request lower env st = (None, st))"
  using str_POST_neq_GET
  by (auto simp: before_request_def Let_def block_def add_ip_blacklist_def reason_text_def
      split: option.splits)

theorem C4_honeypot_witness:
  "before_request ascii_lower (test_env (str ''GET'') t_1000 False) empty_state = (None, stored_state)
   \<and> fst (before_request ascii_lower (test_env (str ''POST'') t_1000_3 False) stored_state) = Some Blocked_403
   \<and> blacklist (snd (before_request ascii_lower (test_env (str ''POST'') t_1000_3 False) stored_state)) client_ip
       = Some (str ''Form submitted too quickly (0.30s)'', None)
   \<and> before_request ascii_lower (test_env (str ''POST'') t_1002 False) stored_state = (None, stored_state)"
proof -
  let ?g = "test_env (str ''GET'') t_1000 False"
  let ?p = "test_env (str ''POST'') t_1000_3 False"
  let ?q = "test_env (str ''POST'') t_1002 False"
  have c: "aiwaf_cache stored_state (honeypot_key client_ip) = Some t_1000"
    by (simp add: stored_state_def)
  have g: "before_request ascii_lower ?g empty_state = (None, stored_state)"
    using C4_honeypot [of ?g ascii_lower empty_state]
    by (simp add: test_env_fields) (simp add: empty_state_def stored_state_def)
  from C4_honeypot [of ?p ascii_lower stored_state] c fast_delta
  have p: "fst (before_request ascii_lower ?p stored_state) = Some Blocked_403"
    and b: "snd (before_request ascii_lower ?p stored_state) =
              stored_state\<lparr> blacklist := (blacklist stored_state)(client_ip \<mapsto>
                 (str ''Form submitted too quickly ('' @ format_2f (dsub t_1000_3 t_1000) @ str ''s)'',
                  build_request_info ascii_lower plain_config (Some (form_request (str ''POST''))))) \<rparr>"
    by (simp_all add: test_env_fields) (simp add: test_env_def)
  from C4_honeypot [of ?q ascii_lower stored_state] c slow_delta
  have q: "fst (before_request ascii_lower ?q stored_state) \<noteq> Some Blocked_403"
    and q2: "fst (before_request ascii_lower ?q stored_state) = None \<longrightarrow>
             snd (before_request ascii_lower ?q stored_state) = stored_state"
    by (simp_all add: test_env_fields)
  from q have "fst (before_request ascii_lower ?q stored_state) = None"
    by (cases "fst (before_request ascii_lower ?q stored_state)") (auto intro: hp_response.exhaust)
  with q2 have q': "before_request ascii_lower ?q stored_state = (None, stored_state)"
    by (simp add: prod_eq_iff)
  have msg: "str ''Form submitted too quickly ('' @ str ''0.30'' @ str ''s)'' = str ''Form submitted too quickly (0.30s)''"
    by (simp add: str_simps)
  from g p b q' show ?thesis
    by (simp add: fast_delta_text plain_config_info msg)
qed

section \<open>Properties of the exemption policy\<close>

text \<open>
  Claim C7. When a \<open>REQUIRE\<close> rule and an \<open>EXEMPT_FROM\<close> rule naming the same detector
  are both among the rules of a route, wherever each stands in the layering, the detector
  applies; with an \<open>EXEMPT_FROM\<close> rule naming it and no \<open>REQUIRE\<close> rule naming it (in
  particular with the \<open>EXEMPT_FROM\<close> rule alone) it does not.
\<close>

theorem C7_require_over_exempt:
  assumes "detector \<in> set required" and "detector \<in> set exempted"
  shows "(REQUIRE required \<in> set rules \<and> EXEMPT_FROM exempted \<in> set rules
            \<longrightarrow> should_apply detector rules)
         \<and> (EXEMPT_FROM exempted \<in> set rules
              \<and> (\<forall>names. REQUIRE names \<in> set rules \<longrightarrow> detector \<notin> set names)
            \<longrightarrow> \<not> should_apply detector rules)
         \<and> \<not> should_apply detector [EXEMPT_FROM exempted]"
proof -
  have req: "is_required detector rules" if "REQUIRE required \<in> set rules"
    unfolding is_required_def list_ex_iff using that assms(1) by force
  have nreq: "\<not> is_required detector rs" if "\<forall>names. REQUIRE names \<in> set rs \<longrightarrow> detector \<notin> set names" for rs
    unfolding is_required_def list_ex_iff using that by (auto split: rule.splits)
  have ex: "is_exempted detector rs" if "EXEMPT_FROM exempted \<in> set rs" for rs
    unfolding is_exempted_def list_ex_iff using that assms(2) by force
  have one: "\<not> should_apply detector [EXEMPT_FROM exempted]"
    using nreq [of "[EXEMPT_FROM exempted]"] ex [of "[EXEMPT_FROM exempted]"]
    by (simp add: should_apply_def)
  from req nreq ex one show ?thesis
    by (simp add: should_apply_def)
qed

theorem C7_require_over_exempt_witness:
  "should_apply (str ''rate_limit'') [EXEMPT_FROM [str ''rate_limit''], REQUIRE [str ''rate_limit'']]
   \<and> should_apply (str ''rate_limit'') [REQUIRE [str ''rate_limit''], EXEMPT_FROM [str ''rate_limit'']]
   \<and> \<not> should_apply (str ''rate_limit'') [EXEMPT_FROM [str ''rate_limit'']]"
proof -
  have m: "str ''rate_limit'' \<in> set [str ''rate_limit'']" by simp
  from C7_require_over_exempt [OF m m, of "[EXEMPT_FROM [str ''rate_limit''], REQUIRE [str ''rate_limit'']]"]
       C7_require_over_exempt [OF m m, of "[REQUIRE [str ''rate_limit''], EXEMPT_FROM [str ''rate_limit'']]"]
  show ?thesis by simp
qed

end
